theory Spec2Isabelle
  imports Main
begin

section \<open>The signal detector (KSCrashMonitor_Signal.c)\<close>

text \<open>
  The embedding is of the build with \<^verbatim>\<open>KSCRASH_HAS_SIGNAL\<close> set; without it every
  function of the file has an empty body. Memory allocation is taken to succeed.
\<close>

subsection \<open>The crash context\<close>

datatype KSCrashMonitorType =
  KSCrashMonitorTypeMachException
  | KSCrashMonitorTypeSignal
  | KSCrashMonitorTypeCPPException
  | KSCrashMonitorTypeNSException
  | KSCrashMonitorTypeMainThreadDeadlock
  | KSCrashMonitorTypeUserReported
  | KSCrashMonitorTypeSystem
  | KSCrashMonitorTypeApplicationState
  | KSCrashMonitorTypeZombie

text \<open>
  The enumeration's values are single bits and a \<^verbatim>\<open>KSCrashMonitorType\<close> variable is a
  bitmask of them: a set of kinds, with \<^verbatim>\<open>|\<close> as union and \<^verbatim>\<open>&\<close> as intersection.
\<close>

type_synonym monitor_mask = "KSCrashMonitorType set"

record siginfo_t =
  si_signo :: int
  si_code :: int
  si_addr :: nat

text \<open>
  \<^verbatim>\<open>ksmc_getContextForSignal\<close> fills the machine context from the user context the
  kernel passed; \<^verbatim>\<open>kssc_initWithMachineContext\<close> makes a cursor over it with a depth
  bound. Both live outside this file; the model keeps what they were given.
\<close>

datatype KSMachineContext = ContextForSignal nat

record KSStackCursor =
  cursor_maxDepth :: nat
  cursor_machineContext :: "KSMachineContext option"

definition zero_cursor :: KSStackCursor where
  "zero_cursor = \<lparr>cursor_maxDepth = 0, cursor_machineContext = None\<rparr>"

definition kssc_initWithMachineContext :: "nat \<Rightarrow> KSMachineContext \<Rightarrow> KSStackCursor" where
  "kssc_initWithMachineContext maxDepth mc =
     \<lparr>cursor_maxDepth = maxDepth, cursor_machineContext = Some mc\<rparr>"

text \<open>
  The fields of \<^verbatim>\<open>KSCrash_MonitorContext\<close> that the two source files touch. A pointer
  field is \<open>None\<close> when null and otherwise holds what it points at.
\<close>

record KSCrash_MonitorContext =
  crashType :: monitor_mask
  eventID :: "nat option"
  offendingMachineContext :: "KSMachineContext option"
  registersAreValid :: bool
  faultAddress :: nat
  signal_userContext :: nat
  signal_signum :: int
  signal_sigcode :: int
  stackCursor :: "KSStackCursor option"
  currentSnapshotUserReported :: bool
  crashedDuringCrashHandling :: bool
  consoleLogPath :: "string option"

definition zero_context :: KSCrash_MonitorContext where
  "zero_context =
     \<lparr>crashType = {}, eventID = None, offendingMachineContext = None,
      registersAreValid = False, faultAddress = 0, signal_userContext = 0,
      signal_signum = 0, signal_sigcode = 0, stackCursor = None,
      currentSnapshotUserReported = False, crashedDuringCrashHandling = False,
      consoleLogPath = None\<rparr>"

subsection \<open>Signal dispositions as the operating system keeps them\<close>

text \<open>
  A handler is a function pointer. The code tells three kinds apart: the null pointer
  (which is also \<^verbatim>\<open>SIG_DFL\<close>), the address of \<^verbatim>\<open>handleSignal\<close>, and any
  other address.
\<close>

datatype handler = NullHandler | HandleSignal | ExternalHandler nat

datatype sa_flag = SA_ONSTACK | SA_SIGINFO | SA_64REGSET

record struct_sigaction =
  sa_sigaction :: handler
  sa_mask :: "int set"
  sa_flags :: "sa_flag set"

definition zero_sigaction :: struct_sigaction where
  "zero_sigaction = \<lparr>sa_sigaction = NullHandler, sa_mask = {}, sa_flags = {}\<rparr>"

record stack_t =
  ss_allocated :: bool
  ss_size :: nat

definition zero_stack :: stack_t where
  "zero_stack = \<lparr>ss_allocated = False, ss_size = 0\<rparr>"

text \<open>
  What surrounds the detector. Of the operating system: the disposition of every
  signal, the registered alternate stack, and which calls it refuses.
  \<^verbatim>\<open>sigaction\<close> fails with EINVAL on a signal number, so a refusal depends on the
  signal and on whether a new action is given. \<^verbatim>\<open>ksid_generate\<close> draws the next
  identifier from \<open>next_uuid\<close>. Of the registry: \<^verbatim>\<open>kscm_handleException\<close> is
  handed a pointer to the detector's context, and it and the callback it invokes write
  through that pointer (\<^verbatim>\<open>onCrash\<close> sets the console log path);
  \<open>handleException_writes\<close> gives the context they leave for the context they are
  handed.
\<close>

record os_state =
  dispositions :: "int \<Rightarrow> struct_sigaction"
  altstack :: "stack_t option"
  query_refused :: "int \<Rightarrow> bool"
  change_refused :: "int \<Rightarrow> bool"
  sigaltstack_refused :: bool
  next_uuid :: nat
  handleException_writes :: "KSCrash_MonitorContext \<Rightarrow> KSCrash_MonitorContext"

text \<open>
  \<^verbatim>\<open>sigaction(sig, act, oact)\<close>: \<open>None\<close> is the return value -1, and nothing is
  written; \<open>Some old\<close> is the return value 0, with \<open>old\<close> the action written to
  \<^verbatim>\<open>oact\<close> when that pointer is given.
\<close>

definition sigaction ::
  "int \<Rightarrow> struct_sigaction option \<Rightarrow> os_state \<Rightarrow> struct_sigaction option \<times> os_state" where
  "sigaction sig act os =
     (case act of
        None \<Rightarrow>
          if query_refused os sig then (None, os)
          else (Some (dispositions os sig), os)
      | Some a \<Rightarrow>
          if change_refused os sig then (None, os)
          else (Some (dispositions os sig),
                os\<lparr>dispositions := (dispositions os)(sig := a)\<rparr>))"

definition sigaltstack :: "stack_t \<Rightarrow> os_state \<Rightarrow> bool \<times> os_state" where
  "sigaltstack ss os =
     (if sigaltstack_refused os then (False, os) else (True, os\<lparr>altstack := Some ss\<rparr>))"

definition ksid_generate :: "os_state \<Rightarrow> nat \<times> os_state" where
  "ksid_generate os = (next_uuid os, os\<lparr>next_uuid := Suc (next_uuid os)\<rparr>)"

subsection \<open>Globals of the detector\<close>

text \<open>Calls into other modules, kept in the order they are made.\<close>

datatype extern_call =
  Call_ksmc_suspendEnvironment
  | Call_kscm_notifyFatalExceptionCaptured bool
  | Call_kscm_handleException KSCrash_MonitorContext
  | Call_ksmc_resumeEnvironment

record signal_monitor =
  os :: os_state
  g_isEnabled :: bool
  g_monitorContext :: KSCrash_MonitorContext
  g_stackCursor :: KSStackCursor
  g_signalStack :: stack_t
  g_previousSignalHandlers :: "struct_sigaction list option"
  g_eventID :: nat
  g_handleSignalHasBeenCalled :: bool
  extern_calls :: "extern_call list"

text \<open>
  What the build and the headers fix: the fatal-signal table of
  \<^verbatim>\<open>kssignal_fatalSignals\<close> (its length is \<^verbatim>\<open>kssignal_numFatalSignals\<close>), the
  stack-depth bound, whether the platform has a signal stack, and whether it is a
  64-bit Apple host.
\<close>

record config =
  fatalSignals :: "int list"
  KSSC_MAX_STACK_DEPTH :: nat
  KSCRASH_HAS_SIGNAL_STACK :: bool
  SIGSTKSZ :: nat
  APPLE_LP64 :: bool

subsection \<open>installSignalHandler\<close>

text \<open>The action the detector installs: lines 191 to 197.\<close>

definition handler_action :: "config \<Rightarrow> struct_sigaction" where
  "handler_action cfg =
     \<lparr>sa_sigaction = HandleSignal,
      sa_mask = {},
      sa_flags = {SA_SIGINFO, SA_ONSTACK} \<union> (if APPLE_LP64 cfg then {SA_64REGSET} else {})\<rparr>"

text \<open>The table of saved handlers, read through the global pointer.\<close>

definition previous_table :: "signal_monitor \<Rightarrow> struct_sigaction list" where
  "previous_table w = (case g_previousSignalHandlers w of None \<Rightarrow> [] | Some t \<Rightarrow> t)"

text \<open>
  The rollback loop \<^verbatim>\<open>for(i--; i >= 0; i--)\<close>: \<open>restoreHandlers cfg i\<close> restores the
  signals at the indices below \<open>i\<close>, highest first. The return value of
  \<^verbatim>\<open>sigaction\<close> is not looked at.
\<close>

definition restore_one :: "config \<Rightarrow> nat \<Rightarrow> signal_monitor \<Rightarrow> signal_monitor" where
  "restore_one cfg j w =
     w\<lparr>os := snd (sigaction (fatalSignals cfg ! j) (Some (previous_table w ! j)) (os w))\<rparr>"

primrec restoreHandlers :: "config \<Rightarrow> nat \<Rightarrow> signal_monitor \<Rightarrow> signal_monitor" where
  "restoreHandlers cfg 0 w = w"
| "restoreHandlers cfg (Suc j) w = restoreHandlers cfg j (restore_one cfg j w)"

text \<open>
  Lines 201 to 215: only when a handler is already saved for the signal is the current
  disposition read; a failed read leaves the zeroed local as it is.
\<close>

definition already_set :: "config \<Rightarrow> nat \<Rightarrow> signal_monitor \<Rightarrow> bool" where
  "already_set cfg i w =
     (if sa_sigaction (previous_table w ! i) \<noteq> NullHandler then
        (let previousSignalHandler =
               (case fst (sigaction (fatalSignals cfg ! i) None (os w)) of
                  None \<Rightarrow> zero_sigaction
                | Some cur \<Rightarrow> cur)
         in sa_sigaction previousSignalHandler = HandleSignal)
      else False)"

text \<open>
  One pass of the loop body, lines 201 to 234, up to the rollback: the pass either goes
  on to the next index or has met a refused \<^verbatim>\<open>sigaction\<close>.
\<close>

datatype pass = Continue signal_monitor | Refused signal_monitor

definition assign_at :: "config \<Rightarrow> nat \<Rightarrow> signal_monitor \<Rightarrow> pass" where
  "assign_at cfg i w =
     (if already_set cfg i w then Continue w
      else
        (case sigaction (fatalSignals cfg ! i) (Some (handler_action cfg)) (os w) of
           (Some old, os') \<Rightarrow>
             Continue (w\<lparr>os := os',
                         g_previousSignalHandlers := Some ((previous_table w)[i := old])\<rparr>)
         | (None, os') \<Rightarrow> Refused (w\<lparr>os := os'\<rparr>)))"

text \<open>The loop of lines 199 to 235, from index \<open>i\<close> on.\<close>

function assignHandlers :: "config \<Rightarrow> nat \<Rightarrow> signal_monitor \<Rightarrow> bool \<times> signal_monitor" where
  "assignHandlers cfg i w =
     (if i < length (fatalSignals cfg) then
        (case assign_at cfg i w of
           Continue w1 \<Rightarrow> assignHandlers cfg (Suc i) w1
         | Refused w1 \<Rightarrow> (False, restoreHandlers cfg i w1))
      else (True, w))"
  by pat_completeness auto
termination
  by (relation "measure (\<lambda>(cfg, i, w). length (fatalSignals cfg) - i)") auto

text \<open>Lines 165 to 178, compiled in only with a signal stack.\<close>

definition setupSignalStack :: "config \<Rightarrow> signal_monitor \<Rightarrow> bool \<times> signal_monitor" where
  "setupSignalStack cfg w =
     (if KSCRASH_HAS_SIGNAL_STACK cfg then
        (let w1 = (if ss_size (g_signalStack w) = 0
                   then w\<lparr>g_signalStack := \<lparr>ss_allocated = True, ss_size = SIGSTKSZ cfg\<rparr>\<rparr>
                   else w)
         in case sigaltstack (g_signalStack w1) (os w1) of
              (ok, os') \<Rightarrow> (ok, w1\<lparr>os := os'\<rparr>))
      else (True, w))"

text \<open>Lines 183 to 189.\<close>

definition allocatePrevious :: "config \<Rightarrow> signal_monitor \<Rightarrow> signal_monitor" where
  "allocatePrevious cfg w =
     (case g_previousSignalHandlers w of
        None \<Rightarrow>
          w\<lparr>g_previousSignalHandlers :=
              Some (replicate (length (fatalSignals cfg)) zero_sigaction)\<rparr>
      | Some t \<Rightarrow> w)"

definition installSignalHandler :: "config \<Rightarrow> signal_monitor \<Rightarrow> bool \<times> signal_monitor" where
  "installSignalHandler cfg w =
     (case setupSignalStack cfg w of
        (False, w1) \<Rightarrow> (False, w1)
      | (True, w1) \<Rightarrow> assignHandlers cfg 0 (allocatePrevious cfg w1))"

definition emb_reInstallSignalHandlers :: "config \<Rightarrow> signal_monitor \<Rightarrow> bool \<times> signal_monitor" where
  "emb_reInstallSignalHandlers cfg w = installSignalHandler cfg w"

subsection \<open>uninstallSignalHandler, setEnabled, isEnabled\<close>

text \<open>
  The loop of lines 255 to 259 restores every signal from the table, lowest index
  first; then the signal stack and the table are zeroed. With a null table pointer the
  \<^verbatim>\<open>memset\<close> of line 266 is handed the null pointer: the call does not return,
  which is the result \<open>None\<close>.
\<close>

definition uninstallSignalHandler :: "config \<Rightarrow> signal_monitor \<Rightarrow> signal_monitor option" where
  "uninstallSignalHandler cfg w =
     (case g_previousSignalHandlers w of
        None \<Rightarrow> None
      | Some t \<Rightarrow>
          (let w1 = fold (restore_one cfg) [0 ..< length (fatalSignals cfg)] w;
               w2 = (if KSCRASH_HAS_SIGNAL_STACK cfg then w1\<lparr>g_signalStack := zero_stack\<rparr>
                     else w1)
           in Some (w2\<lparr>g_previousSignalHandlers :=
                          Some (replicate (length (fatalSignals cfg)) zero_sigaction)\<rparr>)))"

text \<open>
  Lines 275 and 278: the flag is set and the event identifier drawn before the
  installation is tried.
\<close>

definition begin_enable :: "signal_monitor \<Rightarrow> signal_monitor" where
  "begin_enable w =
     (case ksid_generate (os w) of
        (uuid, os') \<Rightarrow> w\<lparr>g_isEnabled := True, g_eventID := uuid, os := os'\<rparr>)"

definition setEnabled :: "config \<Rightarrow> bool \<Rightarrow> signal_monitor \<Rightarrow> signal_monitor option" where
  "setEnabled cfg isEnabled w =
     (if isEnabled \<noteq> g_isEnabled w then
        (if isEnabled then
           (case installSignalHandler cfg (begin_enable w) of
              (False, w') \<Rightarrow> Some w'
            | (True, w') \<Rightarrow> Some w')
         else uninstallSignalHandler cfg (w\<lparr>g_isEnabled := isEnabled\<rparr>))
      else Some w)"

definition isEnabled :: "signal_monitor \<Rightarrow> bool" where
  "isEnabled w = g_isEnabled w"

text \<open>A run of \<^verbatim>\<open>setEnabled\<close> calls, stopping where one does not return.\<close>

fun setEnabled_calls :: "config \<Rightarrow> bool list \<Rightarrow> signal_monitor \<Rightarrow> signal_monitor option" where
  "setEnabled_calls cfg [] w = Some w"
| "setEnabled_calls cfg (b # bs) w =
     (case setEnabled cfg b w of None \<Rightarrow> None | Some w' \<Rightarrow> setEnabled_calls cfg bs w')"

subsection \<open>addContextualInfoToEvent\<close>

definition SIGABRT :: int where
  "SIGABRT = 6"

definition addContextualInfoToEvent :: "KSCrash_MonitorContext \<Rightarrow> KSCrash_MonitorContext" where
  "addContextualInfoToEvent eventContext =
     (if crashType eventContext \<inter> ({KSCrashMonitorTypeSignal} \<union> {KSCrashMonitorTypeMachException}) = {}
      then eventContext\<lparr>signal_signum := SIGABRT\<rparr>
      else eventContext)"

subsection \<open>handleSignal\<close>

definition log_call :: "extern_call \<Rightarrow> signal_monitor \<Rightarrow> signal_monitor" where
  "log_call c w = w\<lparr>extern_calls := extern_calls w @ [c]\<rparr>"

text \<open>
  Lines 102 to 125, run when the detector is enabled. The call of
  \<^verbatim>\<open>kscm_handleException\<close> is recorded with the context it is handed, and the
  context is then what the call leaves in it.
\<close>

definition capture :: "config \<Rightarrow> siginfo_t \<Rightarrow> nat \<Rightarrow> signal_monitor \<Rightarrow> signal_monitor" where
  "capture cfg signalInfo userContext w =
     (let w1 = log_call Call_ksmc_suspendEnvironment w;
          w2 = log_call (Call_kscm_notifyFatalExceptionCaptured False) w1;
          machineContext = ContextForSignal userContext;
          w3 = w2\<lparr>g_stackCursor :=
                    kssc_initWithMachineContext (KSSC_MAX_STACK_DEPTH cfg) machineContext\<rparr>;
          crashContext = zero_context
            \<lparr>crashType := {KSCrashMonitorTypeSignal},
             eventID := Some (g_eventID w3),
             offendingMachineContext := Some machineContext,
             registersAreValid := True,
             faultAddress := si_addr signalInfo,
             signal_userContext := userContext,
             signal_signum := si_signo signalInfo,
             signal_sigcode := si_code signalInfo,
             stackCursor := Some (g_stackCursor w3)\<rparr>;
          w4 = w3\<lparr>g_monitorContext := crashContext\<rparr>;
          w5 = log_call (Call_kscm_handleException (g_monitorContext w4)) w4;
          w6 = w5\<lparr>g_monitorContext := handleException_writes (os w5) (g_monitorContext w5)\<rparr>
      in log_call Call_ksmc_resumeEnvironment w6)"

text \<open>
  The search of lines 132 to 138, \<^verbatim>\<open>for(int i=0;i>fatalSignalsCount;i++)\<close>, from
  index \<open>i\<close> on, with the comparison as the source writes it. The body reads both
  arrays at \<open>i\<close>; a read outside them is \<open>OutOfRange\<close>.
\<close>

datatype search_result = NoPrevious | Previous struct_sigaction | OutOfRange

function previousHandlerSearch ::
  "int list \<Rightarrow> struct_sigaction list option \<Rightarrow> int \<Rightarrow> int \<Rightarrow> search_result" where
  "previousHandlerSearch sigs table sigNum i =
     (if i > int (length sigs) then
        (case table of
           None \<Rightarrow> OutOfRange
         | Some t \<Rightarrow>
             (if nat i < length sigs \<and> nat i < length t then
                (if sigs ! nat i = sigNum \<and> sa_sigaction (t ! nat i) \<noteq> NullHandler
                 then Previous (t ! nat i)
                 else previousHandlerSearch sigs table sigNum (i + 1))
              else OutOfRange))
      else NoPrevious)"
  by pat_completeness auto
termination
  by (relation "measure (\<lambda>(sigs, table, sigNum, i). 0)") auto

text \<open>
  How a call of the handler ends: \<^verbatim>\<open>_Exit\<close>, the tail call of a saved handler with
  the handler's three arguments, \<^verbatim>\<open>raise\<close>, or a read outside the arrays.
\<close>

datatype ending =
  Exited int
  | Chained struct_sigaction int siginfo_t nat
  | Raised int
  | Faulted

definition handleSignal ::
  "config \<Rightarrow> int \<Rightarrow> siginfo_t \<Rightarrow> nat \<Rightarrow> signal_monitor \<Rightarrow> ending \<times> signal_monitor" where
  "handleSignal cfg sigNum signalInfo userContext w =
     (if g_handleSignalHasBeenCalled w then (Exited sigNum, w)
      else
        (let w1 = w\<lparr>g_handleSignalHasBeenCalled := True\<rparr>;
             w2 = (if g_isEnabled w1 then capture cfg signalInfo userContext w1 else w1)
         in case previousHandlerSearch (fatalSignals cfg) (g_previousSignalHandlers w2) sigNum 0 of
              Previous h \<Rightarrow> (Chained h sigNum signalInfo userContext, w2)
            | NoPrevious \<Rightarrow> (Raised sigNum, w2)
            | OutOfRange \<Rightarrow> (Faulted, w2)))"

text \<open>The globals as their initialisers leave them, on a given operating system.\<close>

definition initial_monitor :: "os_state \<Rightarrow> signal_monitor" where
  "initial_monitor sys =
     \<lparr>os = sys, g_isEnabled = False, g_monitorContext = zero_context,
      g_stackCursor = zero_cursor, g_signalStack = zero_stack,
      g_previousSignalHandlers = None, g_eventID = 0,
      g_handleSignalHasBeenCalled = False, extern_calls = []\<rparr>"

section \<open>The installation controller (KSCrashC.c)\<close>

datatype KSApplicationState =
  KSApplicationStateNone
  | KSApplicationStateDidBecomeActive
  | KSApplicationStateWillResignActiveActive
  | KSApplicationStateDidEnterBackground
  | KSApplicationStateWillEnterForeground
  | KSApplicationStateWillTerminate

subsection \<open>The modules the controller calls\<close>

text \<open>
  Calls whose effect stays inside another module (file utilities, the report store's
  set-up, the application-state detector, the logger, the cached data, the report
  writer, the client's callback), kept in the order they are made.
\<close>

datatype controller_call =
  Call_ksfu_makePath string
  | Call_kscrs_initialize string string
  | Call_kscrashstate_initialize string
  | Call_printPreviousLog string
  | Call_kslog_setLogFilename string bool
  | Call_ksccd_init nat
  | Call_kscm_setEventCallback
  | Call_kscrashstate_notifyAppActive bool
  | Call_kscrashstate_notifyAppInForeground bool
  | Call_kscrashstate_notifyAppTerminate
  | Call_kscrashstate_notifyAppCrash
  | Call_kscrashreport_writeRecrashReport KSCrash_MonitorContext string
  | Call_kscrashreport_writeStandardReport KSCrash_MonitorContext string
  | Call_reportWrittenCallback nat int

text \<open>
  Modelled from the spec: the monitor registry (KSCrashMonitor.c is not among the
  sources). \<^verbatim>\<open>setActiveMonitors(mask)\<close> enables the detectors whose bit is set and
  disables the others, a detector that cannot be registered stays disabled, and
  \<^verbatim>\<open>getActiveMonitors()\<close> is recomputed from what the detectors report, never with a
  bit for a detector the platform lacks.
\<close>

record registry =
  monitors_enabled :: monitor_mask
  monitors_available :: monitor_mask

definition kscm_setActiveMonitors :: "monitor_mask \<Rightarrow> registry \<Rightarrow> registry" where
  "kscm_setActiveMonitors monitorTypes r =
     r\<lparr>monitors_enabled := monitorTypes \<inter> monitors_available r\<rparr>"

definition kscm_getActiveMonitors :: "registry \<Rightarrow> monitor_mask" where
  "kscm_getActiveMonitors r = monitors_enabled r"

text \<open>
  Modelled from the spec: the report store's allocation (KSCrashReportStore.c is not
  among the sources). \<^verbatim>\<open>allocateNext()\<close> gives a monotonically increasing id and
  the file path that belongs to it.
\<close>

record report_store =
  next_report_id :: int
  report_path :: "int \<Rightarrow> string"

definition kscrs_getNextCrashReport :: "report_store \<Rightarrow> int \<times> string \<times> report_store" where
  "kscrs_getNextCrashReport st =
     (next_report_id st, report_path st (next_report_id st),
      st\<lparr>next_report_id := next_report_id st + 1\<rparr>)"

subsection \<open>Globals of the controller\<close>

record controller =
  g_installed :: bool
  g_shouldAddConsoleLogToReport :: bool
  g_shouldPrintPreviousLog :: bool
  g_consoleLogPath :: string
  g_monitoring :: monitor_mask
  g_lastCrashReportFilePath :: string
  g_reportWrittenCallback :: "nat option"
  g_lastApplicationState :: KSApplicationState
  monitor_registry :: registry
  store :: report_store
  calls :: "controller_call list"

definition log_controller_call :: "controller_call \<Rightarrow> controller \<Rightarrow> controller" where
  "log_controller_call c s = s\<lparr>calls := calls s @ [c]\<rparr>"

text \<open>
  \<^verbatim>\<open>snprintf\<close> and \<^verbatim>\<open>strncpy\<close> into a buffer of \<open>n\<close> bytes; the size is
  \<^verbatim>\<open>KSFU_MAX_PATH_LENGTH\<close>, which the functions below take as \<open>pathMax\<close>.
\<close>

definition snprintf_path :: "nat \<Rightarrow> string \<Rightarrow> string" where
  "snprintf_path n str = take (n - 1) str"

definition strncpy_path :: "nat \<Rightarrow> string \<Rightarrow> string" where
  "strncpy_path n str = take n str"

subsection \<open>Lifecycle notifications\<close>

definition kscrash_notifyAppActive :: "bool \<Rightarrow> controller \<Rightarrow> controller" where
  "kscrash_notifyAppActive isActive s =
     (let s1 = (if g_installed s
                then log_controller_call (Call_kscrashstate_notifyAppActive isActive) s
                else s)
      in s1\<lparr>g_lastApplicationState :=
               (if isActive then KSApplicationStateDidBecomeActive
                else KSApplicationStateWillResignActiveActive)\<rparr>)"

definition kscrash_notifyAppInForeground :: "bool \<Rightarrow> controller \<Rightarrow> controller" where
  "kscrash_notifyAppInForeground isInForeground s =
     (let s1 = (if g_installed s
                then log_controller_call (Call_kscrashstate_notifyAppInForeground isInForeground) s
                else s)
      in s1\<lparr>g_lastApplicationState :=
               (if isInForeground then KSApplicationStateWillEnterForeground
                else KSApplicationStateDidEnterBackground)\<rparr>)"

definition kscrash_notifyAppTerminate :: "controller \<Rightarrow> controller" where
  "kscrash_notifyAppTerminate s =
     (let s1 = (if g_installed s
                then log_controller_call Call_kscrashstate_notifyAppTerminate s
                else s)
      in s1\<lparr>g_lastApplicationState := KSApplicationStateWillTerminate\<rparr>)"

definition notifyOfBeforeInstallationState :: "controller \<Rightarrow> controller" where
  "notifyOfBeforeInstallationState s =
     (case g_lastApplicationState s of
        KSApplicationStateDidBecomeActive \<Rightarrow> kscrash_notifyAppActive True s
      | KSApplicationStateWillResignActiveActive \<Rightarrow> kscrash_notifyAppActive False s
      | KSApplicationStateDidEnterBackground \<Rightarrow> kscrash_notifyAppInForeground False s
      | KSApplicationStateWillEnterForeground \<Rightarrow> kscrash_notifyAppInForeground True s
      | KSApplicationStateWillTerminate \<Rightarrow> kscrash_notifyAppTerminate s
      | KSApplicationStateNone \<Rightarrow> s)"

subsection \<open>onCrash\<close>

definition onCrash ::
  "nat \<Rightarrow> KSCrash_MonitorContext \<Rightarrow> controller \<Rightarrow> KSCrash_MonitorContext \<times> controller" where
  "onCrash pathMax monitorContext s =
     (let s1 = (if currentSnapshotUserReported monitorContext = False
                then log_controller_call Call_kscrashstate_notifyAppCrash s
                else s);
          ctx = monitorContext
            \<lparr>consoleLogPath :=
               (if g_shouldAddConsoleLogToReport s1 then Some (g_consoleLogPath s1) else None)\<rparr>
      in if crashedDuringCrashHandling ctx then
           (ctx, log_controller_call
                   (Call_kscrashreport_writeRecrashReport ctx (g_lastCrashReportFilePath s1)) s1)
         else
           (case kscrs_getNextCrashReport (store s1) of
              (reportID, crashReportFilePath, st) \<Rightarrow>
                (let s2 = s1\<lparr>store := st,
                             g_lastCrashReportFilePath := strncpy_path pathMax crashReportFilePath\<rparr>;
                     s3 = log_controller_call
                            (Call_kscrashreport_writeStandardReport ctx crashReportFilePath) s2
                 in (ctx,
                     case g_reportWrittenCallback s3 of
                       None \<Rightarrow> s3
                     | Some cb \<Rightarrow> log_controller_call (Call_reportWrittenCallback cb reportID) s3))))"

subsection \<open>kscrash_setMonitoring and kscrash_install\<close>

definition kscrash_setMonitoring :: "monitor_mask \<Rightarrow> controller \<Rightarrow> monitor_mask \<times> controller" where
  "kscrash_setMonitoring monitors s =
     (if g_installed s then
        (let s1 = s\<lparr>monitor_registry := kscm_setActiveMonitors monitors (monitor_registry s)\<rparr>
         in (kscm_getActiveMonitors (monitor_registry s1), s1))
      else ({}, s))"

text \<open>Lines 175 to 196 of \<^verbatim>\<open>kscrash_install\<close>, up to the registration of the callback.\<close>

definition install_setup :: "nat \<Rightarrow> string \<Rightarrow> string \<Rightarrow> controller \<Rightarrow> controller" where
  "install_setup pathMax appName installPath s =
     (let s1 = s\<lparr>g_installed := True\<rparr>;
          path = snprintf_path pathMax (installPath @ ''/Reports'');
          s2 = log_controller_call (Call_ksfu_makePath path) s1;
          s3 = log_controller_call (Call_kscrs_initialize appName path) s2;
          path = snprintf_path pathMax (installPath @ ''/Data'');
          s4 = log_controller_call (Call_ksfu_makePath path) s3;
          path = snprintf_path pathMax (installPath @ ''/Data/CrashState.json'');
          s5 = log_controller_call (Call_kscrashstate_initialize path) s4;
          s6 = s5\<lparr>g_consoleLogPath :=
                     snprintf_path pathMax (installPath @ ''/Data/ConsoleLog.txt'')\<rparr>;
          s7 = (if g_shouldPrintPreviousLog s6
                then log_controller_call (Call_printPreviousLog (g_consoleLogPath s6)) s6
                else s6);
          s8 = log_controller_call (Call_kslog_setLogFilename (g_consoleLogPath s7) True) s7;
          s9 = log_controller_call (Call_ksccd_init 60) s8
      in log_controller_call Call_kscm_setEventCallback s9)"

definition kscrash_install ::
  "nat \<Rightarrow> string \<Rightarrow> string \<Rightarrow> controller \<Rightarrow> monitor_mask \<times> controller" where
  "kscrash_install pathMax appName installPath s =
     (if g_installed s then (kscm_getActiveMonitors (monitor_registry s), s)
      else
        (let s10 = install_setup pathMax appName installPath s
         in case kscrash_setMonitoring (g_monitoring s10) s10 of
              (monitors, s11) \<Rightarrow> (monitors, notifyOfBeforeInstallationState s11)))"

text \<open>
  The globals as their initialisers leave them; the value of
  \<^verbatim>\<open>KSCrashMonitorTypeProductionSafeMinimal\<close> comes from a header and is passed in.
\<close>

definition initial_controller :: "monitor_mask \<Rightarrow> registry \<Rightarrow> report_store \<Rightarrow> controller" where
  "initial_controller productionSafeMinimal r st =
     \<lparr>g_installed = False, g_shouldAddConsoleLogToReport = False,
      g_shouldPrintPreviousLog = False, g_consoleLogPath = [],
      g_monitoring = productionSafeMinimal, g_lastCrashReportFilePath = [],
      g_reportWrittenCallback = None, g_lastApplicationState = KSApplicationStateNone,
      monitor_registry = r, store = st, calls = []\<rparr>"

section \<open>Concrete inputs\<close>

text \<open>
  The fatal signals with their Darwin numbers (SIGABRT 6, SIGBUS 10, SIGFPE 8, SIGILL 4,
  SIGPIPE 13, SIGSEGV 11, SIGSYS 12, SIGTRAP 5) on a 64-bit Apple host.
\<close>

definition example_config :: config where
  "example_config =
     \<lparr>fatalSignals = [6, 10, 8, 4, 13, 11, 12, 5], KSSC_MAX_STACK_DEPTH = 500,
      KSCRASH_HAS_SIGNAL_STACK = True, SIGSTKSZ = 131072, APPLE_LP64 = True\<rparr>"

definition example_registry :: registry where
  "example_registry =
     \<lparr>monitors_enabled = {},
      monitors_available =
        {KSCrashMonitorTypeMachException, KSCrashMonitorTypeSignal,
         KSCrashMonitorTypeCPPException, KSCrashMonitorTypeNSException,
         KSCrashMonitorTypeSystem, KSCrashMonitorTypeApplicationState}\<rparr>"

definition example_store :: report_store where
  "example_store =
     \<lparr>next_report_id = 1,
      report_path = (\<lambda>i. ''/var/app/Reports/report-'' @ replicate (nat i) (CHR ''i''))\<rparr>"

definition example_controller :: controller where
  "example_controller =
     initial_controller {KSCrashMonitorTypeMachException, KSCrashMonitorTypeSignal}
       example_registry example_store"

text \<open>A controller that adds the console log to its reports.\<close>

definition logging_controller :: controller where
  "logging_controller =
     example_controller
       \<lparr>g_shouldAddConsoleLogToReport := True,
        g_consoleLogPath := ''/var/app/Data/ConsoleLog.txt''\<rparr>"

text \<open>
  A system with every disposition at its default that refuses nothing; the registry's
  callback is \<^verbatim>\<open>onCrash\<close> on the logging controller, with 500 for
  \<^verbatim>\<open>KSFU_MAX_PATH_LENGTH\<close>.
\<close>

definition quiet_os :: os_state where
  "quiet_os =
     \<lparr>dispositions = (\<lambda>sig. zero_sigaction), altstack = None,
      query_refused = (\<lambda>sig. False), change_refused = (\<lambda>sig. False),
      sigaltstack_refused = False, next_uuid = 0,
      handleException_writes = (\<lambda>ctx. fst (onCrash 500 ctx logging_controller))\<rparr>"

text \<open>A system on which \<^verbatim>\<open>sigaltstack\<close> fails.\<close>

definition os_refusing_stack :: os_state where
  "os_refusing_stack = quiet_os\<lparr>sigaltstack_refused := True\<rparr>"

text \<open>A system on which the disposition of signal 11 cannot be changed.\<close>

definition os_refusing_SIGSEGV :: os_state where
  "os_refusing_SIGSEGV = quiet_os\<lparr>change_refused := (\<lambda>sig. sig = 11)\<rparr>"

text \<open>A system on which another handler is installed for signal 11 beforehand.\<close>

definition os_with_prior_handler :: os_state where
  "os_with_prior_handler =
     quiet_os\<lparr>dispositions := (\<lambda>sig. zero_sigaction)
       (11 := \<lparr>sa_sigaction = ExternalHandler 42, sa_mask = {}, sa_flags = {SA_SIGINFO}\<rparr>)\<rparr>"

definition example_siginfo :: siginfo_t where
  "example_siginfo = \<lparr>si_signo = 11, si_code = 2, si_addr = 4096\<rparr>"

definition abort_siginfo :: siginfo_t where
  "abort_siginfo = \<lparr>si_signo = 6, si_code = 0, si_addr = 0\<rparr>"

text \<open>The detector after a first successful \<^verbatim>\<open>setEnabled(true)\<close> on the quiet system.\<close>

definition enabled_monitor :: signal_monitor where
  "enabled_monitor =
     snd (installSignalHandler example_config (begin_enable (initial_monitor quiet_os)))"

text \<open>An event that the registry has marked as a crash during crash handling.\<close>

definition recrash_context :: KSCrash_MonitorContext where
  "recrash_context =
     zero_context\<lparr>crashType := {KSCrashMonitorTypeSignal}, crashedDuringCrashHandling := True\<rparr>"

definition chained_monitor :: signal_monitor where
  "chained_monitor =
     snd (installSignalHandler example_config (begin_enable (initial_monitor os_with_prior_handler)))"

section \<open>Auxiliary facts\<close>

declare assignHandlers.simps [simp del]

lemmas sig_defs = example_config_def quiet_os_def os_refusing_stack_def os_refusing_SIGSEGV_def
  os_with_prior_handler_def initial_monitor_def begin_enable_def ksid_generate_def
  installSignalHandler_def emb_reInstallSignalHandlers_def setupSignalStack_def sigaltstack_def
  allocatePrevious_def assign_at_def already_set_def previous_table_def sigaction_def
  zero_sigaction_def zero_stack_def handler_action_def setEnabled_def isEnabled_def
  uninstallSignalHandler_def restore_one_def assignHandlers.simps Let_def

lemmas ctl_defs = example_controller_def initial_controller_def example_registry_def
  example_store_def kscrash_install_def install_setup_def kscrash_setMonitoring_def
  kscm_setActiveMonitors_def kscm_getActiveMonitors_def notifyOfBeforeInstallationState_def
  kscrash_notifyAppActive_def kscrash_notifyAppInForeground_def kscrash_notifyAppTerminate_def
  log_controller_call_def snprintf_path_def strncpy_path_def onCrash_def
  kscrs_getNextCrashReport_def Let_def

subsection \<open>Restoring saved handlers\<close>

lemma restore_one_frame [simp]:
  "g_isEnabled (restore_one cfg j w) = g_isEnabled w"
  "g_previousSignalHandlers (restore_one cfg j w) = g_previousSignalHandlers w"
  "previous_table (restore_one cfg j w) = previous_table w"
  "change_refused (os (restore_one cfg j w)) = change_refused (os w)"
  "query_refused (os (restore_one cfg j w)) = query_refused (os w)"
  by (simp_all add: restore_one_def sigaction_def previous_table_def)

lemma restore_one_dispositions:
  "dispositions (os (restore_one cfg j w)) =
     (if change_refused (os w) (fatalSignals cfg ! j) then dispositions (os w)
      else (dispositions (os w))(fatalSignals cfg ! j := previous_table w ! j))"
  by (simp add: restore_one_def sigaction_def)

lemma restoreHandlers_frame [simp]:
  "g_isEnabled (restoreHandlers cfg k w) = g_isEnabled w"
  "g_previousSignalHandlers (restoreHandlers cfg k w) = g_previousSignalHandlers w"
  "previous_table (restoreHandlers cfg k w) = previous_table w"
  "change_refused (os (restoreHandlers cfg k w)) = change_refused (os w)"
  "query_refused (os (restoreHandlers cfg k w)) = query_refused (os w)"
  by (induction k arbitrary: w; simp)+

lemma restoreHandlers_other:
  "s \<notin> set (take k (fatalSignals cfg)) \<Longrightarrow> k \<le> length (fatalSignals cfg) \<Longrightarrow>
   dispositions (os (restoreHandlers cfg k w)) s = dispositions (os w) s"
proof (induction k arbitrary: w)
  case 0
  then show ?case by simp
next
  case (Suc k)
  from Suc.prems have ne: "s \<noteq> fatalSignals cfg ! k" and notin: "s \<notin> set (take k (fatalSignals cfg))"
    by (auto simp: take_Suc_conv_app_nth)
  from Suc.prems have "k \<le> length (fatalSignals cfg)" by simp
  with Suc.IH [OF notin] have "dispositions (os (restoreHandlers cfg k (restore_one cfg k w))) s
      = dispositions (os (restore_one cfg k w)) s" by simp
  with ne show ?case by (simp add: restore_one_dispositions)
qed

lemma restoreHandlers_below:
  "distinct (fatalSignals cfg) \<Longrightarrow> k \<le> length (fatalSignals cfg) \<Longrightarrow> j < k \<Longrightarrow>
   dispositions (os (restoreHandlers cfg k w)) (fatalSignals cfg ! j) =
     (if change_refused (os w) (fatalSignals cfg ! j) then dispositions (os w) (fatalSignals cfg ! j)
      else previous_table w ! j)"
proof (induction k arbitrary: w)
  case 0
  then show ?case by simp
next
  case (Suc k)
  have kl: "k < length (fatalSignals cfg)" using Suc.prems by simp
  show ?case
  proof (cases "j = k")
    case True
    have "fatalSignals cfg ! k \<notin> set (take k (fatalSignals cfg))"
      using Suc.prems(1) kl by (metis distinct_take id_take_nth_drop distinct_append disjoint_iff  list.set_intros(1) not_distinct_conv_prefix)
    then have "dispositions (os (restoreHandlers cfg k (restore_one cfg k w))) (fatalSignals cfg ! k)
       = dispositions (os (restore_one cfg k w)) (fatalSignals cfg ! k)"
      using kl by (simp add: restoreHandlers_other)
    with True show ?thesis by (simp add: restore_one_dispositions)
  next
    case False
    then have jk: "j < k" using Suc.prems by simp
    have ne: "fatalSignals cfg ! j \<noteq> fatalSignals cfg ! k"
      using Suc.prems(1) jk kl by (simp add: nth_eq_iff_index_eq)
    from Suc.IH [OF Suc.prems(1) _ jk, of "restore_one cfg k w"] kl ne
    show ?thesis by (simp add: restore_one_dispositions)
  qed
qed

subsection \<open>One pass of the installation loop\<close>

lemma nth_notin_take:
  "distinct xs \<Longrightarrow> i \<le> j \<Longrightarrow> j < length xs \<Longrightarrow> xs ! j \<notin> set (take i xs)"
  by (auto simp: in_set_conv_nth nth_eq_iff_index_eq)

lemma already_set_cong:
  "previous_table w1 ! j = previous_table w ! j \<Longrightarrow>
   dispositions (os w1) (fatalSignals cfg ! j) = dispositions (os w) (fatalSignals cfg ! j) \<Longrightarrow>
   query_refused (os w1) = query_refused (os w) \<Longrightarrow>
   already_set cfg j w1 = already_set cfg j w"
  by (simp add: already_set_def sigaction_def)

lemma already_set_unfold:
  "already_set cfg j w =
     (sa_sigaction (previous_table w ! j) \<noteq> NullHandler \<and>
      \<not> query_refused (os w) (fatalSignals cfg ! j) \<and>
      sa_sigaction (dispositions (os w) (fatalSignals cfg ! j)) = HandleSignal)"
  by (simp add: already_set_def sigaction_def zero_sigaction_def)

lemma assign_at_Refused:
  "assign_at cfg i w = Refused w1 \<Longrightarrow>
   w1 = w \<and> change_refused (os w) (fatalSignals cfg ! i) \<and> \<not> already_set cfg i w"
  by (auto simp: assign_at_def sigaction_def split: if_splits)

lemma assign_at_Continue_frame:
  assumes "assign_at cfg i w = Continue w1"
  shows "g_isEnabled w1 = g_isEnabled w"
    and "change_refused (os w1) = change_refused (os w)"
    and "query_refused (os w1) = query_refused (os w)"
    and "length (previous_table w1) = length (previous_table w)"
    and "j \<noteq> i \<Longrightarrow> previous_table w1 ! j = previous_table w ! j"
    and "s \<noteq> fatalSignals cfg ! i \<Longrightarrow> dispositions (os w1) s = dispositions (os w) s"
  using assms
  by (auto simp: assign_at_def sigaction_def previous_table_def split: if_splits)

lemma assign_at_Continue_skip:
  "assign_at cfg i w = Continue w1 \<Longrightarrow> already_set cfg i w \<Longrightarrow> w1 = w"
  by (simp add: assign_at_def)

lemma assign_at_Continue_install:
  assumes "assign_at cfg i w = Continue w1" and "\<not> already_set cfg i w"
    and "i < length (previous_table w)"
  shows "\<not> change_refused (os w) (fatalSignals cfg ! i)"
    and "previous_table w1 ! i = dispositions (os w) (fatalSignals cfg ! i)"
    and "dispositions (os w1) (fatalSignals cfg ! i) = handler_action cfg"
  using assms
  by (auto simp: assign_at_def sigaction_def previous_table_def split: if_splits)

subsection \<open>The installation loop\<close>

lemma assignHandlers_success:
  "distinct (fatalSignals cfg) \<Longrightarrow> length (previous_table w) = length (fatalSignals cfg) \<Longrightarrow>
   assignHandlers cfg i w = (True, w') \<Longrightarrow>
   length (previous_table w') = length (fatalSignals cfg) \<and>
   (\<forall>j < length (fatalSignals cfg).
      if i \<le> j \<and> \<not> already_set cfg j w
      then \<not> change_refused (os w) (fatalSignals cfg ! j) \<and>
           previous_table w' ! j = dispositions (os w) (fatalSignals cfg ! j) \<and>
           dispositions (os w') (fatalSignals cfg ! j) = handler_action cfg
      else previous_table w' ! j = previous_table w ! j \<and>
           dispositions (os w') (fatalSignals cfg ! j) = dispositions (os w) (fatalSignals cfg ! j))"
proof (induction cfg i w rule: assignHandlers.induct)
  case (1 cfg i w)
  let ?n = "length (fatalSignals cfg)"
  show ?case
  proof (cases "i < ?n")
    case False
    with "1.prems" show ?thesis by (simp add: assignHandlers.simps)
  next
    case True
    with "1.prems"(3) obtain w1 where a: "assign_at cfg i w = Continue w1"
      and r: "assignHandlers cfg (Suc i) w1 = (True, w')"
      by (auto simp: assignHandlers.simps [of cfg i w] split: pass.splits)
    note fr = assign_at_Continue_frame [OF a]
    have len1: "length (previous_table w1) = ?n" using fr(4) "1.prems"(2) by simp
    from "1.IH" [OF True a "1.prems"(1) len1 r]
    have len': "length (previous_table w') = ?n"
      and ih: "\<And>j. j < ?n \<Longrightarrow>
        (if Suc i \<le> j \<and> \<not> already_set cfg j w1
         then \<not> change_refused (os w1) (fatalSignals cfg ! j) \<and>
              previous_table w' ! j = dispositions (os w1) (fatalSignals cfg ! j) \<and>
              dispositions (os w') (fatalSignals cfg ! j) = handler_action cfg
         else previous_table w' ! j = previous_table w1 ! j \<and>
              dispositions (os w') (fatalSignals cfg ! j) = dispositions (os w1) (fatalSignals cfg ! j))"
      by blast+
    have "\<And>j. j < ?n \<Longrightarrow>
        (if i \<le> j \<and> \<not> already_set cfg j w
         then \<not> change_refused (os w) (fatalSignals cfg ! j) \<and>
              previous_table w' ! j = dispositions (os w) (fatalSignals cfg ! j) \<and>
              dispositions (os w') (fatalSignals cfg ! j) = handler_action cfg
         else previous_table w' ! j = previous_table w ! j \<and>
              dispositions (os w') (fatalSignals cfg ! j) = dispositions (os w) (fatalSignals cfg ! j))"
    proof -
      fix j assume j: "j < ?n"
      show "?thesis j"
      proof (cases "j = i")
        case eq: True
        from ih [OF j] eq have keep: "previous_table w' ! i = previous_table w1 ! i"
          "dispositions (os w') (fatalSignals cfg ! i) = dispositions (os w1) (fatalSignals cfg ! i)"
          by simp_all
        show ?thesis
        proof (cases "already_set cfg i w")
          case True
          with assign_at_Continue_skip [OF a] keep eq show ?thesis by simp
        next
          case False
          from assign_at_Continue_install [OF a False] True "1.prems"(2) keep eq False
          show ?thesis by simp
        qed
      next
        case ne: False
        have sne: "fatalSignals cfg ! j \<noteq> fatalSignals cfg ! i"
          using "1.prems"(1) j True ne by (simp add: nth_eq_iff_index_eq)
        have t: "previous_table w1 ! j = previous_table w ! j" using fr(5) ne by simp
        have d: "dispositions (os w1) (fatalSignals cfg ! j) = dispositions (os w) (fatalSignals cfg ! j)"
          using fr(6) sne by simp
        have al: "already_set cfg j w1 = already_set cfg j w"
          by (rule already_set_cong [OF t d fr(3)])
        have ij: "(Suc i \<le> j) = (i \<le> j)" using ne by auto
        from ih [OF j] show ?thesis unfolding al ij t d fr(2) .
      qed
    qed
    with len' show ?thesis by blast
  qed
qed

lemma assignHandlers_failure:
  "distinct (fatalSignals cfg) \<Longrightarrow> length (previous_table w) = length (fatalSignals cfg) \<Longrightarrow>
   assignHandlers cfg i w = (False, w') \<Longrightarrow>
   (\<forall>j < length (fatalSignals cfg).
      (if j < i
       then previous_table w' ! j = previous_table w ! j \<and>
            dispositions (os w') (fatalSignals cfg ! j) =
              (if change_refused (os w) (fatalSignals cfg ! j)
               then dispositions (os w) (fatalSignals cfg ! j) else previous_table w ! j)
       else if already_set cfg j w
       then previous_table w' ! j = previous_table w ! j \<and>
            (dispositions (os w') (fatalSignals cfg ! j) = dispositions (os w) (fatalSignals cfg ! j) \<or>
             dispositions (os w') (fatalSignals cfg ! j) = previous_table w ! j)
       else dispositions (os w') (fatalSignals cfg ! j) = dispositions (os w) (fatalSignals cfg ! j)))"
proof (induction cfg i w rule: assignHandlers.induct)
  case (1 cfg i w)
  let ?n = "length (fatalSignals cfg)"
  let ?goal = "\<lambda>j.
      (if j < i
       then previous_table w' ! j = previous_table w ! j \<and>
            dispositions (os w') (fatalSignals cfg ! j) =
              (if change_refused (os w) (fatalSignals cfg ! j)
               then dispositions (os w) (fatalSignals cfg ! j) else previous_table w ! j)
       else if already_set cfg j w
       then previous_table w' ! j = previous_table w ! j \<and>
            (dispositions (os w') (fatalSignals cfg ! j) = dispositions (os w) (fatalSignals cfg ! j) \<or>
             dispositions (os w') (fatalSignals cfg ! j) = previous_table w ! j)
       else dispositions (os w') (fatalSignals cfg ! j) = dispositions (os w) (fatalSignals cfg ! j))"
  have i: "i < ?n" using "1.prems"(3) by (auto simp: assignHandlers.simps [of cfg i w] split: if_splits)
  show ?case
  proof (cases "assign_at cfg i w")
    case (Refused w1)
    from assign_at_Refused [OF Refused] have w1: "w1 = w" by simp
    with "1.prems"(3) i Refused have w': "w' = restoreHandlers cfg i w"
      by (simp add: assignHandlers.simps [of cfg i w])
    have "?goal j" if j: "j < ?n" for j
    proof (cases "j < i")
      case True
      from restoreHandlers_below [OF "1.prems"(1) _ True, of w] i True
      show ?thesis by (simp add: w')
    next
      case False
      then have "fatalSignals cfg ! j \<notin> set (take i (fatalSignals cfg))"
        using nth_notin_take [OF "1.prems"(1) _ j, of i] by simp
      then have "dispositions (os w') (fatalSignals cfg ! j) = dispositions (os w) (fatalSignals cfg ! j)"
        using i by (simp add: w' restoreHandlers_other)
      with False show ?thesis by (simp add: w')
    qed
    then show ?thesis by blast
  next
    case (Continue w1)
    with "1.prems"(3) i have r: "assignHandlers cfg (Suc i) w1 = (False, w')"
      by (simp add: assignHandlers.simps [of cfg i w])
    note fr = assign_at_Continue_frame [OF Continue]
    have len1: "length (previous_table w1) = ?n" using fr(4) "1.prems"(2) by simp
    from "1.IH" [OF i Continue "1.prems"(1) len1 r]
    have ih: "\<And>j. j < ?n \<Longrightarrow>
      (if j < Suc i
       then previous_table w' ! j = previous_table w1 ! j \<and>
            dispositions (os w') (fatalSignals cfg ! j) =
              (if change_refused (os w1) (fatalSignals cfg ! j)
               then dispositions (os w1) (fatalSignals cfg ! j) else previous_table w1 ! j)
       else if already_set cfg j w1
       then previous_table w' ! j = previous_table w1 ! j \<and>
            (dispositions (os w') (fatalSignals cfg ! j) = dispositions (os w1) (fatalSignals cfg ! j) \<or>
             dispositions (os w') (fatalSignals cfg ! j) = previous_table w1 ! j)
       else dispositions (os w') (fatalSignals cfg ! j) = dispositions (os w1) (fatalSignals cfg ! j))"
      by blast
    have "?goal j" if j: "j < ?n" for j
    proof (cases "j = i")
      case eq: True
      show ?thesis
      proof (cases "already_set cfg i w")
        case True
        with assign_at_Continue_skip [OF Continue] have "w1 = w" by simp
        with ih [OF j] eq True show ?thesis by simp
      next
        case False
        from assign_at_Continue_install [OF Continue False] i "1.prems"(2)
        have "previous_table w1 ! i = dispositions (os w) (fatalSignals cfg ! i)"
          and "dispositions (os w1) (fatalSignals cfg ! i) = handler_action cfg"
          and "\<not> change_refused (os w) (fatalSignals cfg ! i)" by simp_all
        with ih [OF j] eq False fr(2) show ?thesis by auto
      qed
    next
      case ne: False
      have sne: "fatalSignals cfg ! j \<noteq> fatalSignals cfg ! i"
        using "1.prems"(1) j i ne by (simp add: nth_eq_iff_index_eq)
      have t: "previous_table w1 ! j = previous_table w ! j" using fr(5) ne by simp
      have d: "dispositions (os w1) (fatalSignals cfg ! j) = dispositions (os w) (fatalSignals cfg ! j)"
        using fr(6) sne by simp
      have al: "already_set cfg j w1 = already_set cfg j w"
        by (rule already_set_cong [OF t d fr(3)])
      have ij: "(j < Suc i) = (j < i)" using ne by auto
      from ih [OF j] show ?thesis unfolding al ij t d fr(2) .
    qed
    then show ?thesis by blast
  qed
qed

lemma assignHandlers_g_isEnabled:
  "g_isEnabled (snd (assignHandlers cfg i w)) = g_isEnabled w"
proof (induction cfg i w rule: assignHandlers.induct)
  case (1 cfg i w)
  show ?case
  proof (cases "i < length (fatalSignals cfg)")
    case False
    then show ?thesis by (simp add: assignHandlers.simps [of cfg i w])
  next
    case True
    show ?thesis
    proof (cases "assign_at cfg i w")
      case (Continue w1)
      with "1.IH" [OF True Continue] assign_at_Continue_frame(1) [OF Continue] True
      show ?thesis by (simp add: assignHandlers.simps [of cfg i w])
    next
      case (Refused w1)
      with assign_at_Refused [OF Refused] True
      show ?thesis by (simp add: assignHandlers.simps [of cfg i w])
    qed
  qed
qed

subsection \<open>installSignalHandler\<close>

lemma setupSignalStack_frame:
  "g_isEnabled (snd (setupSignalStack cfg w)) = g_isEnabled w"
  "g_previousSignalHandlers (snd (setupSignalStack cfg w)) = g_previousSignalHandlers w"
  "dispositions (os (snd (setupSignalStack cfg w))) = dispositions (os w)"
  "change_refused (os (snd (setupSignalStack cfg w))) = change_refused (os w)"
  "query_refused (os (snd (setupSignalStack cfg w))) = query_refused (os w)"
  by (simp_all add: setupSignalStack_def sigaltstack_def Let_def)

lemma setupSignalStack_table:
  "previous_table (snd (setupSignalStack cfg w)) = previous_table w"
  by (simp add: previous_table_def setupSignalStack_frame)

lemma allocatePrevious_frame:
  "g_isEnabled (allocatePrevious cfg w) = g_isEnabled w"
  "os (allocatePrevious cfg w) = os w"
  by (simp_all add: allocatePrevious_def split: option.splits)

lemma allocatePrevious_table:
  "g_previousSignalHandlers w = None \<or> length (previous_table w) = length (fatalSignals cfg) \<Longrightarrow>
   length (previous_table (allocatePrevious cfg w)) = length (fatalSignals cfg)"
  by (auto simp: allocatePrevious_def previous_table_def split: option.splits)

lemma allocatePrevious_nth:
  "sa_sigaction (previous_table (allocatePrevious cfg w) ! j) \<noteq> NullHandler \<Longrightarrow>
   j < length (fatalSignals cfg) \<Longrightarrow>
   previous_table (allocatePrevious cfg w) ! j = previous_table w ! j"
  by (auto simp: allocatePrevious_def previous_table_def zero_sigaction_def split: option.splits)

lemma allocatePrevious_setup:
  "previous_table (allocatePrevious cfg (snd (setupSignalStack cfg w))) =
   previous_table (allocatePrevious cfg w)"
  by (simp add: allocatePrevious_def previous_table_def setupSignalStack_frame split: option.splits)

lemma already_set_alloc_setup:
  "already_set cfg j (allocatePrevious cfg (snd (setupSignalStack cfg w))) =
   already_set cfg j (allocatePrevious cfg w)"
  by (rule already_set_cong)
     (simp_all add: allocatePrevious_setup allocatePrevious_frame setupSignalStack_frame)

lemma installSignalHandler_g_isEnabled:
  "g_isEnabled (snd (installSignalHandler cfg w)) = g_isEnabled w"
proof (cases "setupSignalStack cfg w")
  case (Pair ok w1)
  then have "g_isEnabled w1 = g_isEnabled w"
    using setupSignalStack_frame(1) [of cfg w] by simp
  with Pair show ?thesis
    by (cases ok) (simp_all add: installSignalHandler_def assignHandlers_g_isEnabled allocatePrevious_frame)
qed

lemma installSignalHandler_success:
  assumes d: "distinct (fatalSignals cfg)"
    and t: "g_previousSignalHandlers w = None \<or> length (previous_table w) = length (fatalSignals cfg)"
    and r: "installSignalHandler cfg w = (True, w')"
    and j: "j < length (fatalSignals cfg)"
  shows "if already_set cfg j (allocatePrevious cfg w)
         then previous_table w' ! j = previous_table w ! j \<and>
              dispositions (os w') (fatalSignals cfg ! j) = dispositions (os w) (fatalSignals cfg ! j)
         else previous_table w' ! j = dispositions (os w) (fatalSignals cfg ! j) \<and>
              dispositions (os w') (fatalSignals cfg ! j) = handler_action cfg"
proof -
  let ?w1 = "snd (setupSignalStack cfg w)"
  let ?w2 = "allocatePrevious cfg ?w1"
  from r have a: "assignHandlers cfg 0 ?w2 = (True, w')"
    by (auto simp: installSignalHandler_def split: prod.splits bool.splits)
  have t1: "g_previousSignalHandlers ?w1 = None \<or> length (previous_table ?w1) = length (fatalSignals cfg)"
    using t by (simp add: setupSignalStack_frame setupSignalStack_table)
  have len: "length (previous_table ?w2) = length (fatalSignals cfg)"
    by (rule allocatePrevious_table [OF t1])
  from assignHandlers_success [OF d len a] j
  have main: "if 0 \<le> j \<and> \<not> already_set cfg j ?w2
      then \<not> change_refused (os ?w2) (fatalSignals cfg ! j) \<and>
           previous_table w' ! j = dispositions (os ?w2) (fatalSignals cfg ! j) \<and>
           dispositions (os w') (fatalSignals cfg ! j) = handler_action cfg
      else previous_table w' ! j = previous_table ?w2 ! j \<and>
           dispositions (os w') (fatalSignals cfg ! j) = dispositions (os ?w2) (fatalSignals cfg ! j)"
    by blast
  have os2: "dispositions (os ?w2) = dispositions (os w)"
    by (simp add: allocatePrevious_frame setupSignalStack_frame)
  show ?thesis
  proof (cases "already_set cfg j (allocatePrevious cfg w)")
    case True
    then have nn: "sa_sigaction (previous_table (allocatePrevious cfg w) ! j) \<noteq> NullHandler"
      by (simp add: already_set_unfold)
    have "previous_table ?w2 ! j = previous_table w ! j"
      using allocatePrevious_nth [OF nn j] by (simp add: allocatePrevious_setup)
    with main True os2 show ?thesis by (simp add: already_set_alloc_setup)
  next
    case False
    with main os2 show ?thesis by (simp add: already_set_alloc_setup)
  qed
qed

lemma installSignalHandler_failure:
  assumes d: "distinct (fatalSignals cfg)"
    and t: "g_previousSignalHandlers w = None \<or> length (previous_table w) = length (fatalSignals cfg)"
    and r: "installSignalHandler cfg w = (False, w')"
    and j: "j < length (fatalSignals cfg)"
  shows "if already_set cfg j (allocatePrevious cfg w)
         then dispositions (os w') (fatalSignals cfg ! j) = dispositions (os w) (fatalSignals cfg ! j) \<or>
              dispositions (os w') (fatalSignals cfg ! j) = previous_table w ! j
         else dispositions (os w') (fatalSignals cfg ! j) = dispositions (os w) (fatalSignals cfg ! j)"
proof (cases "fst (setupSignalStack cfg w)")
  case False
  with r have "w' = snd (setupSignalStack cfg w)"
    by (auto simp: installSignalHandler_def split: prod.splits bool.splits)
  then show ?thesis by (simp add: setupSignalStack_frame)
next
  case True
  let ?w1 = "snd (setupSignalStack cfg w)"
  let ?w2 = "allocatePrevious cfg ?w1"
  from r True have a: "assignHandlers cfg 0 ?w2 = (False, w')"
    by (auto simp: installSignalHandler_def split: prod.splits bool.splits)
  have t1: "g_previousSignalHandlers ?w1 = None \<or> length (previous_table ?w1) = length (fatalSignals cfg)"
    using t by (simp add: setupSignalStack_frame setupSignalStack_table)
  have len: "length (previous_table ?w2) = length (fatalSignals cfg)"
    by (rule allocatePrevious_table [OF t1])
  from assignHandlers_failure [OF d len a] j
  have main: "if already_set cfg j ?w2
       then previous_table w' ! j = previous_table ?w2 ! j \<and>
            (dispositions (os w') (fatalSignals cfg ! j) = dispositions (os ?w2) (fatalSignals cfg ! j) \<or>
             dispositions (os w') (fatalSignals cfg ! j) = previous_table ?w2 ! j)
       else dispositions (os w') (fatalSignals cfg ! j) = dispositions (os ?w2) (fatalSignals cfg ! j)"
    by simp
  have os2: "dispositions (os ?w2) = dispositions (os w)"
    by (simp add: allocatePrevious_frame setupSignalStack_frame)
  show ?thesis
  proof (cases "already_set cfg j (allocatePrevious cfg w)")
    case al: True
    then have nn: "sa_sigaction (previous_table (allocatePrevious cfg w) ! j) \<noteq> NullHandler"
      by (simp add: already_set_unfold)
    have "previous_table ?w2 ! j = previous_table w ! j"
      using allocatePrevious_nth [OF nn j] by (simp add: allocatePrevious_setup)
    with main al os2 show ?thesis by (simp add: already_set_alloc_setup)
  next
    case False
    with main os2 show ?thesis by (simp add: already_set_alloc_setup)
  qed
qed

subsection \<open>setEnabled\<close>

lemma begin_enable_frame:
  "g_previousSignalHandlers (begin_enable w) = g_previousSignalHandlers w"
  "previous_table (begin_enable w) = previous_table w"
  "dispositions (os (begin_enable w)) = dispositions (os w)"
  "query_refused (os (begin_enable w)) = query_refused (os w)"
  "g_isEnabled (begin_enable w)"
  by (simp_all add: begin_enable_def ksid_generate_def previous_table_def)

lemma already_set_begin_enable:
  "already_set cfg j (allocatePrevious cfg (begin_enable w)) = already_set cfg j (allocatePrevious cfg w)"
  by (rule already_set_cong)
     (simp_all add: allocatePrevious_def previous_table_def begin_enable_frame allocatePrevious_frame
        split: option.splits)

lemma fold_restore_g_isEnabled:
  "g_isEnabled (fold (restore_one cfg) js w) = g_isEnabled w"
  by (induction js arbitrary: w) simp_all

lemma setEnabled_sets_flag:
  "setEnabled cfg b w = Some w' \<Longrightarrow> g_isEnabled w' = b"
proof -
  assume a: "setEnabled cfg b w = Some w'"
  show ?thesis
  proof (cases "b = g_isEnabled w")
    case True
    with a show ?thesis by (simp add: setEnabled_def)
  next
    case False
    show ?thesis
    proof (cases b)
      case True
      with a False have "w' = snd (installSignalHandler cfg (begin_enable w))"
        by (auto simp: setEnabled_def split: prod.splits bool.splits)
      then show ?thesis using True
        by (simp add: installSignalHandler_g_isEnabled begin_enable_def ksid_generate_def)
    next
      case nb: False
      with a False show ?thesis
        by (auto simp: setEnabled_def uninstallSignalHandler_def Let_def fold_restore_g_isEnabled
            split: option.splits if_splits)
    qed
  qed
qed

lemma setEnabled_calls_last:
  "setEnabled_calls cfg bs w = Some w' \<Longrightarrow> bs \<noteq> [] \<Longrightarrow> isEnabled w' = last bs"
proof (induction bs arbitrary: w)
  case Nil
  then show ?case by simp
next
  case (Cons b bs)
  from Cons.prems(1) obtain w1 where s: "setEnabled cfg b w = Some w1"
    and r: "setEnabled_calls cfg bs w1 = Some w'"
    by (auto split: option.splits)
  show ?case
  proof (cases "bs = []")
    case True
    with r have "w' = w1" by simp
    with setEnabled_sets_flag [OF s] True show ?thesis by (simp add: isEnabled_def)
  next
    case False
    with Cons.IH [OF r] show ?thesis by simp
  qed
qed

lemma setEnabled_True_returns: "setEnabled cfg True w \<noteq> None"
  by (simp add: setEnabled_def split: prod.splits bool.splits)

lemma setEnabled_True_result:
  "\<not> g_isEnabled w \<Longrightarrow>
   setEnabled cfg True w = Some (snd (installSignalHandler cfg (begin_enable w)))"
  by (simp add: setEnabled_def split: prod.splits bool.splits)

subsection \<open>The forwarding search\<close>

lemma previousHandlerSearch_start:
  "previousHandlerSearch sigs table sigNum 0 = NoPrevious"
  by simp

lemma handleSignal_never_chains:
  "fst (handleSignal cfg sigNum si uc w) = (if g_handleSignalHasBeenCalled w then Exited sigNum else Raised sigNum)"
  by (simp add: handleSignal_def Let_def)

subsection \<open>The controller\<close>

lemma notify_frame:
  "monitor_registry (kscrash_notifyAppActive b s) = monitor_registry s"
  "monitor_registry (kscrash_notifyAppInForeground b s) = monitor_registry s"
  "monitor_registry (kscrash_notifyAppTerminate s) = monitor_registry s"
  "g_installed (kscrash_notifyAppActive b s) = g_installed s"
  "g_installed (kscrash_notifyAppInForeground b s) = g_installed s"
  "g_installed (kscrash_notifyAppTerminate s) = g_installed s"
  by (simp_all add: kscrash_notifyAppActive_def kscrash_notifyAppInForeground_def
      kscrash_notifyAppTerminate_def log_controller_call_def Let_def)

lemma notifyOfBeforeInstallationState_frame:
  "monitor_registry (notifyOfBeforeInstallationState s) = monitor_registry s"
  "g_installed (notifyOfBeforeInstallationState s) = g_installed s"
  by (simp_all add: notifyOfBeforeInstallationState_def notify_frame split: KSApplicationState.splits)

lemma notifyOfBeforeInstallationState_calls:
  "g_installed s \<Longrightarrow>
   calls (notifyOfBeforeInstallationState s) =
     calls s @
       (case g_lastApplicationState s of
          KSApplicationStateNone \<Rightarrow> []
        | KSApplicationStateDidBecomeActive \<Rightarrow> [Call_kscrashstate_notifyAppActive True]
        | KSApplicationStateWillResignActiveActive \<Rightarrow> [Call_kscrashstate_notifyAppActive False]
        | KSApplicationStateDidEnterBackground \<Rightarrow> [Call_kscrashstate_notifyAppInForeground False]
        | KSApplicationStateWillEnterForeground \<Rightarrow> [Call_kscrashstate_notifyAppInForeground True]
        | KSApplicationStateWillTerminate \<Rightarrow> [Call_kscrashstate_notifyAppTerminate])"
  "g_lastApplicationState (notifyOfBeforeInstallationState s) = g_lastApplicationState s"
  by (simp_all add: notifyOfBeforeInstallationState_def kscrash_notifyAppActive_def
      kscrash_notifyAppInForeground_def kscrash_notifyAppTerminate_def log_controller_call_def Let_def
      split: KSApplicationState.splits)

lemma install_setup_frame:
  "g_installed (install_setup pathMax appName installPath s)"
  "g_lastApplicationState (install_setup pathMax appName installPath s) = g_lastApplicationState s"
  "g_monitoring (install_setup pathMax appName installPath s) = g_monitoring s"
  "monitor_registry (install_setup pathMax appName installPath s) = monitor_registry s"
  by (simp_all add: install_setup_def log_controller_call_def Let_def)

lemma install_setup_calls:
  "calls (install_setup pathMax appName installPath s) =
     calls s @
       [Call_ksfu_makePath (snprintf_path pathMax (installPath @ ''/Reports'')),
        Call_kscrs_initialize appName (snprintf_path pathMax (installPath @ ''/Reports'')),
        Call_ksfu_makePath (snprintf_path pathMax (installPath @ ''/Data'')),
        Call_kscrashstate_initialize (snprintf_path pathMax (installPath @ ''/Data/CrashState.json''))] @
       (if g_shouldPrintPreviousLog s
        then [Call_printPreviousLog (snprintf_path pathMax (installPath @ ''/Data/ConsoleLog.txt''))]
        else []) @
       [Call_kslog_setLogFilename (snprintf_path pathMax (installPath @ ''/Data/ConsoleLog.txt'')) True,
        Call_ksccd_init 60,
        Call_kscm_setEventCallback]"
  by (simp add: install_setup_def log_controller_call_def Let_def)

lemma install_first:
  "\<not> g_installed s \<Longrightarrow>
   kscrash_install pathMax appName installPath s =
     (kscm_getActiveMonitors (kscm_setActiveMonitors (g_monitoring s) (monitor_registry s)),
      notifyOfBeforeInstallationState
        ((install_setup pathMax appName installPath s)
           \<lparr>monitor_registry := kscm_setActiveMonitors (g_monitoring s) (monitor_registry s)\<rparr>))"
  by (simp add: kscrash_install_def kscrash_setMonitoring_def install_setup_frame Let_def)

lemma install_installed:
  "g_installed (snd (kscrash_install pathMax appName installPath s))"
  by (cases "g_installed s")
     (simp_all add: install_first notifyOfBeforeInstallationState_frame install_setup_frame,
      simp add: kscrash_install_def)

lemma install_result_is_active:
  "fst (kscrash_install pathMax appName installPath s) =
   kscm_getActiveMonitors (monitor_registry (snd (kscrash_install pathMax appName installPath s)))"
  by (cases "g_installed s")
     (simp_all add: install_first notifyOfBeforeInstallationState_frame,
      simp add: kscrash_install_def)

lemma install_first_calls:
  "\<not> g_installed s \<Longrightarrow>
   calls (snd (kscrash_install pathMax appName installPath s)) =
     calls (install_setup pathMax appName installPath s) @
       (case g_lastApplicationState s of
          KSApplicationStateNone \<Rightarrow> []
        | KSApplicationStateDidBecomeActive \<Rightarrow> [Call_kscrashstate_notifyAppActive True]
        | KSApplicationStateWillResignActiveActive \<Rightarrow> [Call_kscrashstate_notifyAppActive False]
        | KSApplicationStateDidEnterBackground \<Rightarrow> [Call_kscrashstate_notifyAppInForeground False]
        | KSApplicationStateWillEnterForeground \<Rightarrow> [Call_kscrashstate_notifyAppInForeground True]
        | KSApplicationStateWillTerminate \<Rightarrow> [Call_kscrashstate_notifyAppTerminate])"
  by (simp add: install_first notifyOfBeforeInstallationState_calls install_setup_frame)

section \<open>The claims\<close>

subsection \<open>C1: forwarding to the saved previous handler\<close>

text \<open>
  C1. After the capture the handler should look the signal up in the table of saved
  handlers and, when one is saved, tail-call it with the same three arguments. The
  search loop starts at index 0 and runs while the index is greater than the number of
  fatal signals, so its body is never entered: on a system where another handler was
  installed for signal 11 before the detector was enabled, the handler is saved at
  index 5 of the table, and a trapped signal 11 still ends in \<^verbatim>\<open>raise(11)\<close>.
\<close>

theorem handleSignal_reraises_with_saved_handler:
  "setEnabled example_config True (initial_monitor os_with_prior_handler) = Some chained_monitor \<and>
   fatalSignals example_config ! 5 = 11 \<and>
   sa_sigaction (previous_table chained_monitor ! 5) = ExternalHandler 42 \<and>
   fst (handleSignal example_config 11 example_siginfo 7 chained_monitor) = Raised 11"
proof -
  have a: "setEnabled example_config True (initial_monitor os_with_prior_handler) = Some chained_monitor"
    unfolding chained_monitor_def
    by (rule setEnabled_True_result) (simp add: initial_monitor_def)
  have b: "fatalSignals example_config ! 5 = 11" by (simp add: example_config_def)
  have c: "sa_sigaction (previous_table chained_monitor ! 5) = ExternalHandler 42"
    by (simp add: chained_monitor_def sig_defs)
  have d: "\<not> g_handleSignalHasBeenCalled chained_monitor"
    by (simp add: chained_monitor_def sig_defs)
  from a b c d show ?thesis by (simp add: handleSignal_never_chains)
qed

subsection \<open>C2: isEnabled after setEnabled\<close>

text \<open>
  C2, as the code has it. \<^verbatim>\<open>setEnabled(true)\<close> always returns, and
  \<^verbatim>\<open>setEnabled(false)\<close> returns whenever the table of saved handlers has been
  allocated. After every run of \<^verbatim>\<open>setEnabled\<close> calls that returns,
  \<^verbatim>\<open>isEnabled()\<close> is the argument of the last call, whether or not the handlers
  could be installed: the flag is written before the installation is tried and is not
  taken back.
\<close>

theorem setEnabled_flag_is_last_request:
  "setEnabled cfg True w \<noteq> None \<and>
   (g_previousSignalHandlers w \<noteq> None \<longrightarrow> setEnabled cfg False w \<noteq> None) \<and>
   (bs \<noteq> [] \<longrightarrow> setEnabled_calls cfg bs w = Some w' \<longrightarrow> isEnabled w' = last bs)"
proof -
  have "g_previousSignalHandlers w \<noteq> None \<longrightarrow> setEnabled cfg False w \<noteq> None"
    by (auto simp: setEnabled_def uninstallSignalHandler_def Let_def)
  then show ?thesis
    using setEnabled_True_returns [of cfg w] setEnabled_calls_last [of cfg bs w w'] by blast
qed

text \<open>
  C2 at a concrete input: enabling, disabling and enabling again on the quiet system
  leaves the detector enabled.
\<close>

theorem setEnabled_flag_is_last_request_witness:
  "setEnabled example_config True (initial_monitor quiet_os) \<noteq> None \<and>
   g_previousSignalHandlers enabled_monitor \<noteq> None \<and>
   setEnabled example_config False enabled_monitor \<noteq> None \<and>
   [True, False, True] \<noteq> [] \<and>
   map_option isEnabled (setEnabled_calls example_config [True, False, True] (initial_monitor quiet_os))
     = Some (last [True, False, True])"
proof -
  have t: "g_previousSignalHandlers enabled_monitor \<noteq> None"
    by (simp add: enabled_monitor_def sig_defs)
  have "\<exists>w'. setEnabled_calls example_config [True, False, True] (initial_monitor quiet_os) = Some w'"
    by (simp add: sig_defs)
  then obtain w' where
    r: "setEnabled_calls example_config [True, False, True] (initial_monitor quiet_os) = Some w'"
    by blast
  from setEnabled_flag_is_last_request [of example_config "initial_monitor quiet_os" "[True, False, True]" w']
    setEnabled_flag_is_last_request [of example_config enabled_monitor "[True]" enabled_monitor] t r
  show ?thesis by simp
qed

text \<open>
  C2 as stated fails: where \<^verbatim>\<open>sigaltstack\<close> is refused the installation reports
  failure, and \<^verbatim>\<open>isEnabled()\<close> is true after \<^verbatim>\<open>setEnabled(true)\<close>.
\<close>

theorem setEnabled_failed_install_stays_enabled:
  "fst (installSignalHandler example_config (begin_enable (initial_monitor os_refusing_stack))) = False \<and>
   map_option isEnabled (setEnabled example_config True (initial_monitor os_refusing_stack)) = Some True"
  by (simp add: sig_defs)

subsection \<open>C3: a second trapped fault\<close>

text \<open>
  C3, as the code has it. Once the handler has been entered, its latch is set: a
  signal trapped from then on, during the first capture or after it, ends in
  \<^verbatim>\<open>_Exit\<close> with the state untouched, so without a call of the registry and
  without a report. The write path, when the event it is handed carries the
  crashed-during-crash-handling flag, writes a recrash report at the path of the last
  allocated report and allocates no id; otherwise it allocates the next id and keeps its
  path as the last one.
\<close>

theorem second_trap_exits_recrash_targets_last_path:
  "handleSignal cfg sigNum signalInfo userContext (w\<lparr>g_handleSignalHasBeenCalled := True\<rparr>) =
     (Exited sigNum, w\<lparr>g_handleSignalHasBeenCalled := True\<rparr>) \<and>
   handleSignal cfg sigNum2 signalInfo2 userContext2
       (snd (handleSignal cfg sigNum signalInfo userContext w)) =
     (Exited sigNum2, snd (handleSignal cfg sigNum signalInfo userContext w)) \<and>
   (crashedDuringCrashHandling monitorContext \<longrightarrow>
      calls (snd (onCrash pathMax monitorContext s)) =
        calls s @
        (if currentSnapshotUserReported monitorContext then [] else [Call_kscrashstate_notifyAppCrash]) @
        [Call_kscrashreport_writeRecrashReport
           (fst (onCrash pathMax monitorContext s)) (g_lastCrashReportFilePath s)] \<and>
      store (snd (onCrash pathMax monitorContext s)) = store s \<and>
      g_lastCrashReportFilePath (snd (onCrash pathMax monitorContext s)) = g_lastCrashReportFilePath s) \<and>
   (\<not> crashedDuringCrashHandling monitorContext \<longrightarrow>
      g_lastCrashReportFilePath (snd (onCrash pathMax monitorContext s)) =
        strncpy_path pathMax (report_path (store s) (next_report_id (store s))) \<and>
      next_report_id (store (snd (onCrash pathMax monitorContext s))) = next_report_id (store s) + 1)"
proof -
  have l: "g_handleSignalHasBeenCalled (snd (handleSignal cfg sigNum signalInfo userContext w))"
    by (simp add: handleSignal_def capture_def log_call_def Let_def)
  have a: "handleSignal cfg sigNum2 signalInfo2 userContext2
       (snd (handleSignal cfg sigNum signalInfo userContext w)) =
     (Exited sigNum2, snd (handleSignal cfg sigNum signalInfo userContext w))"
    using l by (simp add: handleSignal_def [of cfg sigNum2])
  have b: "handleSignal cfg sigNum signalInfo userContext (w\<lparr>g_handleSignalHasBeenCalled := True\<rparr>) =
     (Exited sigNum, w\<lparr>g_handleSignalHasBeenCalled := True\<rparr>)"
    by (simp add: handleSignal_def)
  have c: "crashedDuringCrashHandling monitorContext \<longrightarrow>
      calls (snd (onCrash pathMax monitorContext s)) =
        calls s @
        (if currentSnapshotUserReported monitorContext then [] else [Call_kscrashstate_notifyAppCrash]) @
        [Call_kscrashreport_writeRecrashReport
           (fst (onCrash pathMax monitorContext s)) (g_lastCrashReportFilePath s)] \<and>
      store (snd (onCrash pathMax monitorContext s)) = store s \<and>
      g_lastCrashReportFilePath (snd (onCrash pathMax monitorContext s)) = g_lastCrashReportFilePath s"
    by (simp add: onCrash_def log_controller_call_def Let_def)
  have d: "\<not> crashedDuringCrashHandling monitorContext \<longrightarrow>
      g_lastCrashReportFilePath (snd (onCrash pathMax monitorContext s)) =
        strncpy_path pathMax (report_path (store s) (next_report_id (store s))) \<and>
      next_report_id (store (snd (onCrash pathMax monitorContext s))) = next_report_id (store s) + 1"
    by (simp add: onCrash_def log_controller_call_def kscrs_getNextCrashReport_def Let_def
        split: option.splits)
  from a b c d show ?thesis by blast
qed

text \<open>
  C3 at a concrete input: a first event allocates report 1, and a flagged event after
  it is written as a recrash report at the same path, with the next id still 2.
\<close>

theorem second_trap_exits_recrash_targets_last_path_witness:
  "\<not> crashedDuringCrashHandling (zero_context\<lparr>crashType := {KSCrashMonitorTypeSignal}\<rparr>) \<and>
   crashedDuringCrashHandling recrash_context \<and>
   g_lastCrashReportFilePath
     (snd (onCrash 500 (zero_context\<lparr>crashType := {KSCrashMonitorTypeSignal}\<rparr>) example_controller))
     = ''/var/app/Reports/report-i'' \<and>
   calls (snd (onCrash 500 recrash_context
     (snd (onCrash 500 (zero_context\<lparr>crashType := {KSCrashMonitorTypeSignal}\<rparr>) example_controller))))
     = [Call_kscrashstate_notifyAppCrash,
        Call_kscrashreport_writeStandardReport
          (zero_context\<lparr>crashType := {KSCrashMonitorTypeSignal}\<rparr>) ''/var/app/Reports/report-i'',
        Call_kscrashstate_notifyAppCrash,
        Call_kscrashreport_writeRecrashReport recrash_context ''/var/app/Reports/report-i''] \<and>
   next_report_id (store (snd (onCrash 500 recrash_context
     (snd (onCrash 500 (zero_context\<lparr>crashType := {KSCrashMonitorTypeSignal}\<rparr>) example_controller)))))
     = 2"
proof -
  let ?c = "zero_context\<lparr>crashType := {KSCrashMonitorTypeSignal}\<rparr>"
  let ?s1 = "snd (onCrash 500 ?c example_controller)"
  have n: "\<not> crashedDuringCrashHandling ?c" by (simp add: zero_context_def)
  have r: "crashedDuringCrashHandling recrash_context" by (simp add: recrash_context_def zero_context_def)
  have c1: "calls ?s1 = [Call_kscrashstate_notifyAppCrash,
        Call_kscrashreport_writeStandardReport ?c ''/var/app/Reports/report-i'']"
    by (simp add: ctl_defs zero_context_def)
  have f: "fst (onCrash 500 recrash_context ?s1) = recrash_context"
    by (simp add: ctl_defs zero_context_def recrash_context_def)
  have u: "\<not> currentSnapshotUserReported recrash_context"
    by (simp add: recrash_context_def zero_context_def)
  have p: "report_path (store example_controller) (next_report_id (store example_controller))
      = ''/var/app/Reports/report-i''"
    by (simp add: ctl_defs)
  have i: "next_report_id (store example_controller) = 1" by (simp add: ctl_defs)
  from second_trap_exits_recrash_targets_last_path [of example_config 11 example_siginfo 7 enabled_monitor 11 example_siginfo 7
        ?c 500 example_controller]
    second_trap_exits_recrash_targets_last_path [of example_config 11 example_siginfo 7 enabled_monitor 11 example_siginfo 7
        recrash_context 500 ?s1] n r c1 f u p i
  show ?thesis by (simp add: strncpy_path_def)
qed

text \<open>
  C3 as stated fails: with the detector enabled and the first capture begun (the
  latch is set at the handler's entry), a second trapped signal 11 ends in
  \<^verbatim>\<open>_Exit(11)\<close> and the registry is not called, so no recrash report is written.
\<close>

theorem second_trap_writes_no_report:
  "fst (handleSignal example_config 11 example_siginfo 7
          (enabled_monitor\<lparr>g_handleSignalHasBeenCalled := True\<rparr>)) = Exited 11 \<and>
   extern_calls (snd (handleSignal example_config 11 example_siginfo 7
          (enabled_monitor\<lparr>g_handleSignalHasBeenCalled := True\<rparr>))) = []"
proof -
  have "extern_calls enabled_monitor = []"
    by (simp add: enabled_monitor_def sig_defs)
  then show ?thesis by (simp add: handleSignal_def)
qed

subsection \<open>C4: the crash context of a capture\<close>

text \<open>
  C4, as the code has it. For a fatal signal trapped while the detector is enabled and
  before the handler's latch is set, that is for the first trapped signal, the
  process-wide context is zeroed and then holds the kind Signal, the session's event
  id, the fault address, the signal number and code of the signal info, the machine
  context made from the user context, a stack cursor over that machine context bounded
  by \<^verbatim>\<open>KSSC_MAX_STACK_DEPTH\<close>, and valid registers, every other field being
  zero. That context is what the registry is handed, between the suspension and the
  resumption of the threads, and the context afterwards is what the registry and its
  callback leave of it. A signal trapped once the latch is set ends in
  \<^verbatim>\<open>_Exit\<close> with the context untouched.
\<close>

theorem first_capture_populates_context:
  "(g_isEnabled w \<and> \<not> g_handleSignalHasBeenCalled w \<longrightarrow>
      extern_calls (snd (handleSignal cfg sigNum signalInfo userContext w)) =
        extern_calls w @
          [Call_ksmc_suspendEnvironment,
           Call_kscm_notifyFatalExceptionCaptured False,
           Call_kscm_handleException
             (zero_context
             \<lparr>crashType := {KSCrashMonitorTypeSignal},
              eventID := Some (g_eventID w),
              offendingMachineContext := Some (ContextForSignal userContext),
              registersAreValid := True,
              faultAddress := si_addr signalInfo,
              signal_userContext := userContext,
              signal_signum := si_signo signalInfo,
              signal_sigcode := si_code signalInfo,
              stackCursor := Some \<lparr>cursor_maxDepth = KSSC_MAX_STACK_DEPTH cfg,
                                   cursor_machineContext = Some (ContextForSignal userContext)\<rparr>\<rparr>),
           Call_ksmc_resumeEnvironment] \<and>
      g_monitorContext (snd (handleSignal cfg sigNum signalInfo userContext w)) =
        handleException_writes (os w)
          (zero_context
             \<lparr>crashType := {KSCrashMonitorTypeSignal},
              eventID := Some (g_eventID w),
              offendingMachineContext := Some (ContextForSignal userContext),
              registersAreValid := True,
              faultAddress := si_addr signalInfo,
              signal_userContext := userContext,
              signal_signum := si_signo signalInfo,
              signal_sigcode := si_code signalInfo,
              stackCursor := Some \<lparr>cursor_maxDepth = KSSC_MAX_STACK_DEPTH cfg,
                                   cursor_machineContext = Some (ContextForSignal userContext)\<rparr>\<rparr>) \<and>
      g_stackCursor (snd (handleSignal cfg sigNum signalInfo userContext w)) =
        \<lparr>cursor_maxDepth = KSSC_MAX_STACK_DEPTH cfg,
         cursor_machineContext = Some (ContextForSignal userContext)\<rparr>) \<and>
   (g_handleSignalHasBeenCalled w \<longrightarrow>
      handleSignal cfg sigNum signalInfo userContext w = (Exited sigNum, w))"
  by (simp add: handleSignal_def capture_def log_call_def kssc_initWithMachineContext_def Let_def)

text \<open>
  C4 at a concrete input: signal 11 trapped on the detector enabled on the quiet
  system, whose callback adds the console log path, and signal 6 trapped after it.
\<close>

theorem first_capture_populates_context_witness:
  "g_isEnabled enabled_monitor \<and> \<not> g_handleSignalHasBeenCalled enabled_monitor \<and>
   extern_calls (snd (handleSignal example_config 11 example_siginfo 7 enabled_monitor)) =
     [Call_ksmc_suspendEnvironment,
      Call_kscm_notifyFatalExceptionCaptured False,
      Call_kscm_handleException
        (zero_context
           \<lparr>crashType := {KSCrashMonitorTypeSignal}, eventID := Some 0,
            offendingMachineContext := Some (ContextForSignal 7), registersAreValid := True,
            faultAddress := 4096, signal_userContext := 7, signal_signum := 11,
            signal_sigcode := 2,
            stackCursor := Some \<lparr>cursor_maxDepth = 500,
                                 cursor_machineContext = Some (ContextForSignal 7)\<rparr>\<rparr>),
      Call_ksmc_resumeEnvironment] \<and>
   g_monitorContext (snd (handleSignal example_config 11 example_siginfo 7 enabled_monitor)) =
     zero_context
       \<lparr>crashType := {KSCrashMonitorTypeSignal}, eventID := Some 0,
        offendingMachineContext := Some (ContextForSignal 7), registersAreValid := True,
        faultAddress := 4096, signal_userContext := 7, signal_signum := 11,
        signal_sigcode := 2,
        stackCursor := Some \<lparr>cursor_maxDepth = 500,
                             cursor_machineContext = Some (ContextForSignal 7)\<rparr>,
        consoleLogPath := Some ''/var/app/Data/ConsoleLog.txt''\<rparr> \<and>
   g_handleSignalHasBeenCalled (snd (handleSignal example_config 11 example_siginfo 7 enabled_monitor)) \<and>
   fst (handleSignal example_config 6 abort_siginfo 9
          (snd (handleSignal example_config 11 example_siginfo 7 enabled_monitor))) = Exited 6"
proof -
  let ?w1 = "snd (handleSignal example_config 11 example_siginfo 7 enabled_monitor)"
  have e: "g_isEnabled enabled_monitor"
    by (simp add: enabled_monitor_def installSignalHandler_g_isEnabled begin_enable_frame)
  have l: "\<not> g_handleSignalHasBeenCalled enabled_monitor"
    by (simp add: enabled_monitor_def sig_defs)
  have i: "g_eventID enabled_monitor = 0"
    by (simp add: enabled_monitor_def sig_defs)
  have c: "extern_calls enabled_monitor = []"
    by (simp add: enabled_monitor_def sig_defs)
  have h: "handleException_writes (os enabled_monitor) =
           (\<lambda>ctx. fst (onCrash 500 ctx logging_controller))"
    by (simp add: enabled_monitor_def sig_defs)
  have l1: "g_handleSignalHasBeenCalled ?w1"
    by (simp add: handleSignal_def capture_def log_call_def Let_def)
  note first = first_capture_populates_context [of enabled_monitor example_config 11 example_siginfo 7]
  note second = first_capture_populates_context [of ?w1 example_config 6 abort_siginfo 9]
  from second l1 have x: "fst (handleSignal example_config 6 abort_siginfo 9 ?w1) = Exited 6"
    by simp
  from first e l i c h x l1 show ?thesis
    by (simp add: zero_context_def example_siginfo_def example_config_def onCrash_def
        logging_controller_def example_controller_def initial_controller_def
        log_controller_call_def kscrs_getNextCrashReport_def Let_def)
qed

text \<open>
  C4 as stated fails: the detector is still enabled when signal 6 is trapped after
  signal 11, and the handler exits with no call of the registry; the context keeps the
  signal number 11 of the first capture.
\<close>

theorem second_trap_keeps_first_context:
  "g_isEnabled (snd (handleSignal example_config 11 example_siginfo 7 enabled_monitor)) \<and>
   fst (handleSignal example_config 6 abort_siginfo 9
          (snd (handleSignal example_config 11 example_siginfo 7 enabled_monitor))) = Exited 6 \<and>
   signal_signum (g_monitorContext (snd (handleSignal example_config 6 abort_siginfo 9
          (snd (handleSignal example_config 11 example_siginfo 7 enabled_monitor))))) = 11 \<and>
   si_signo abort_siginfo = 6 \<and>
   extern_calls (snd (handleSignal example_config 6 abort_siginfo 9
          (snd (handleSignal example_config 11 example_siginfo 7 enabled_monitor)))) =
     extern_calls (snd (handleSignal example_config 11 example_siginfo 7 enabled_monitor))"
proof -
  let ?w1 = "snd (handleSignal example_config 11 example_siginfo 7 enabled_monitor)"
  have e: "g_isEnabled enabled_monitor"
    by (simp add: enabled_monitor_def installSignalHandler_g_isEnabled begin_enable_frame)
  have l: "\<not> g_handleSignalHasBeenCalled enabled_monitor"
    by (simp add: enabled_monitor_def sig_defs)
  have h: "handleException_writes (os enabled_monitor) =
           (\<lambda>ctx. fst (onCrash 500 ctx logging_controller))"
    by (simp add: enabled_monitor_def sig_defs)
  have e1: "g_isEnabled ?w1"
    using e by (simp add: handleSignal_def capture_def log_call_def Let_def)
  have l1: "g_handleSignalHasBeenCalled ?w1"
    by (simp add: handleSignal_def capture_def log_call_def Let_def)
  have s1: "signal_signum (g_monitorContext ?w1) = 11"
    using e l h
    by (simp add: handleSignal_def capture_def log_call_def Let_def onCrash_def
        kscrs_getNextCrashReport_def example_siginfo_def zero_context_def)
  have x: "handleSignal example_config 6 abort_siginfo 9 ?w1 = (Exited 6, ?w1)"
    using l1 by (simp add: handleSignal_def [of example_config 6])
  from e1 s1 x show ?thesis by (simp add: abort_siginfo_def)
qed

subsection \<open>C5: rollback of a failed installation\<close>

text \<open>
  C5, as the code has it. When \<^verbatim>\<open>setEnabled(true)\<close> runs the installation and
  it reports failure, every signal of the table that the call did not skip as already
  set has the disposition it had before the call (those the call had changed were
  restored from their saved handlers), a skipped signal has its old disposition or its
  saved previous handler, and \<^verbatim>\<open>isEnabled()\<close> is true: the flag stays set.
\<close>

theorem failed_install_rolls_back_flag_stays:
  assumes "distinct (fatalSignals cfg)"
    and "g_previousSignalHandlers w = None \<or> length (previous_table w) = length (fatalSignals cfg)"
    and "\<not> g_isEnabled w"
    and "installSignalHandler cfg (begin_enable w) = (False, w')"
  shows "setEnabled cfg True w = Some w' \<and>
         isEnabled w' \<and>
         (\<forall>j < length (fatalSignals cfg).
            (\<not> already_set cfg j (allocatePrevious cfg w) \<longrightarrow>
               dispositions (os w') (fatalSignals cfg ! j) = dispositions (os w) (fatalSignals cfg ! j)) \<and>
            (already_set cfg j (allocatePrevious cfg w) \<longrightarrow>
               dispositions (os w') (fatalSignals cfg ! j) = dispositions (os w) (fatalSignals cfg ! j) \<or>
               dispositions (os w') (fatalSignals cfg ! j) = previous_table w ! j))"
proof -
  have s: "setEnabled cfg True w = Some w'"
    using assms(3,4) by (simp add: setEnabled_def)
  have e: "isEnabled w'"
    using installSignalHandler_g_isEnabled [of cfg "begin_enable w"] assms(4)
    by (simp add: isEnabled_def begin_enable_frame)
  have t: "g_previousSignalHandlers (begin_enable w) = None \<or>
           length (previous_table (begin_enable w)) = length (fatalSignals cfg)"
    using assms(2) by (simp add: begin_enable_frame)
  have r: "if already_set cfg j (allocatePrevious cfg w)
       then dispositions (os w') (fatalSignals cfg ! j) = dispositions (os w) (fatalSignals cfg ! j) \<or>
            dispositions (os w') (fatalSignals cfg ! j) = previous_table w ! j
       else dispositions (os w') (fatalSignals cfg ! j) = dispositions (os w) (fatalSignals cfg ! j)"
    if j: "j < length (fatalSignals cfg)" for j
    using installSignalHandler_failure [OF assms(1) t assms(4) j]
    unfolding already_set_begin_enable begin_enable_frame(2,3) .
  from s e r show ?thesis by (simp split: if_splits)
qed

text \<open>
  C5 at a concrete input: where signal 11 cannot be changed, the installation fails
  at index 5 and signal 6, changed before, is back at its default.
\<close>

theorem failed_install_rolls_back_flag_stays_witness:
  "distinct (fatalSignals example_config) \<and>
   g_previousSignalHandlers (initial_monitor os_refusing_SIGSEGV) = None \<and>
   \<not> g_isEnabled (initial_monitor os_refusing_SIGSEGV) \<and>
   \<not> fst (installSignalHandler example_config (begin_enable (initial_monitor os_refusing_SIGSEGV))) \<and>
   map_option isEnabled (setEnabled example_config True (initial_monitor os_refusing_SIGSEGV)) = Some True \<and>
   dispositions (os (snd (installSignalHandler example_config
       (begin_enable (initial_monitor os_refusing_SIGSEGV))))) 6 = zero_sigaction"
proof -
  let ?w = "initial_monitor os_refusing_SIGSEGV"
  let ?w' = "snd (installSignalHandler example_config (begin_enable ?w))"
  have d: "distinct (fatalSignals example_config)" by (simp add: example_config_def)
  have t: "g_previousSignalHandlers ?w = None" by (simp add: initial_monitor_def)
  have e: "\<not> g_isEnabled ?w" by (simp add: initial_monitor_def)
  have f: "\<not> fst (installSignalHandler example_config (begin_enable ?w))" by (simp add: sig_defs)
  then have r: "installSignalHandler example_config (begin_enable ?w) = (False, ?w')"
    by (metis prod.collapse)
  have na: "\<not> already_set example_config 0 (allocatePrevious example_config ?w)"
    by (simp add: sig_defs)
  have z: "dispositions (os ?w) 6 = zero_sigaction" by (simp add: sig_defs)
  note th = failed_install_rolls_back_flag_stays [OF d disjI1 [OF t] e r]
  from th have s: "setEnabled example_config True ?w = Some ?w'" and en: "isEnabled ?w'"
    by blast+
  have j0: "(0::nat) < length (fatalSignals example_config)" by (simp add: example_config_def)
  from th j0 na
  have "dispositions (os ?w') (fatalSignals example_config ! 0) =
        dispositions (os ?w) (fatalSignals example_config ! 0)" by blast
  moreover have "fatalSignals example_config ! 0 = 6" by (simp add: example_config_def)
  ultimately have "dispositions (os ?w') 6 = zero_sigaction" using z by simp
  with s en d t e f show ?thesis by simp
qed

text \<open>
  C5 as stated fails in its last part: where signal 11 cannot be changed the
  installation reports failure, and the detector is enabled afterwards.
\<close>

theorem failed_install_leaves_detector_enabled:
  "fst (installSignalHandler example_config (begin_enable (initial_monitor os_refusing_SIGSEGV))) = False \<and>
   map_option isEnabled (setEnabled example_config True (initial_monitor os_refusing_SIGSEGV)) = Some True"
  by (simp add: sig_defs)

subsection \<open>C6: installing twice\<close>

text \<open>
  C6. A second \<^verbatim>\<open>kscrash_install\<close> returns the mask the first one returned and
  leaves the state as the first one left it; the first one, when nothing was installed
  before, makes the two directories, initialises the store and the crash state, and
  registers the callback once each.
\<close>

theorem second_install_is_noop:
  "fst (kscrash_install pathMax appName2 installPath2
          (snd (kscrash_install pathMax appName installPath s))) =
     fst (kscrash_install pathMax appName installPath s) \<and>
   snd (kscrash_install pathMax appName2 installPath2
          (snd (kscrash_install pathMax appName installPath s))) =
     snd (kscrash_install pathMax appName installPath s) \<and>
   (\<not> g_installed s \<longrightarrow>
      calls (snd (kscrash_install pathMax appName installPath s)) =
        calls s @
        [Call_ksfu_makePath (snprintf_path pathMax (installPath @ ''/Reports'')),
         Call_kscrs_initialize appName (snprintf_path pathMax (installPath @ ''/Reports'')),
         Call_ksfu_makePath (snprintf_path pathMax (installPath @ ''/Data'')),
         Call_kscrashstate_initialize
           (snprintf_path pathMax (installPath @ ''/Data/CrashState.json''))] @
        (if g_shouldPrintPreviousLog s
         then [Call_printPreviousLog (snprintf_path pathMax (installPath @ ''/Data/ConsoleLog.txt''))]
         else []) @
        [Call_kslog_setLogFilename (snprintf_path pathMax (installPath @ ''/Data/ConsoleLog.txt'')) True,
         Call_ksccd_init 60,
         Call_kscm_setEventCallback] @
        (case g_lastApplicationState s of
           KSApplicationStateNone \<Rightarrow> []
         | KSApplicationStateDidBecomeActive \<Rightarrow> [Call_kscrashstate_notifyAppActive True]
         | KSApplicationStateWillResignActiveActive \<Rightarrow> [Call_kscrashstate_notifyAppActive False]
         | KSApplicationStateDidEnterBackground \<Rightarrow> [Call_kscrashstate_notifyAppInForeground False]
         | KSApplicationStateWillEnterForeground \<Rightarrow> [Call_kscrashstate_notifyAppInForeground True]
         | KSApplicationStateWillTerminate \<Rightarrow> [Call_kscrashstate_notifyAppTerminate]))"
proof -
  let ?s1 = "snd (kscrash_install pathMax appName installPath s)"
  have i: "g_installed ?s1" by (rule install_installed)
  then have "kscrash_install pathMax appName2 installPath2 ?s1 =
      (kscm_getActiveMonitors (monitor_registry ?s1), ?s1)"
    by (simp add: kscrash_install_def)
  then have a: "fst (kscrash_install pathMax appName2 installPath2 ?s1) =
        fst (kscrash_install pathMax appName installPath s)"
    and b: "snd (kscrash_install pathMax appName2 installPath2 ?s1) = ?s1"
    by (simp_all add: install_result_is_active)
  show ?thesis
    using a b by (simp add: install_first_calls install_setup_calls)
qed

text \<open>
  C6 at a concrete input: two installs of MyApp under \<^verbatim>\<open>/var/app\<close>.
\<close>

theorem second_install_is_noop_witness:
  "\<not> g_installed example_controller \<and>
   fst (kscrash_install 500 ''MyApp'' ''/var/app''
          (snd (kscrash_install 500 ''MyApp'' ''/var/app'' example_controller))) =
     {KSCrashMonitorTypeMachException, KSCrashMonitorTypeSignal} \<and>
   calls (snd (kscrash_install 500 ''MyApp'' ''/var/app''
          (snd (kscrash_install 500 ''MyApp'' ''/var/app'' example_controller)))) =
     [Call_ksfu_makePath ''/var/app/Reports'',
      Call_kscrs_initialize ''MyApp'' ''/var/app/Reports'',
      Call_ksfu_makePath ''/var/app/Data'',
      Call_kscrashstate_initialize ''/var/app/Data/CrashState.json'',
      Call_kslog_setLogFilename ''/var/app/Data/ConsoleLog.txt'' True,
      Call_ksccd_init 60,
      Call_kscm_setEventCallback]"
proof -
  have n: "\<not> g_installed example_controller" by (simp add: ctl_defs)
  have f: "fst (kscrash_install 500 ''MyApp'' ''/var/app'' example_controller) =
      {KSCrashMonitorTypeMachException, KSCrashMonitorTypeSignal}"
    by (auto simp: ctl_defs)
  have p: "\<not> g_shouldPrintPreviousLog example_controller" "calls example_controller = []"
    "g_lastApplicationState example_controller = KSApplicationStateNone"
    by (simp_all add: ctl_defs)
  from second_install_is_noop [of 500 "''MyApp''" "''/var/app''" "''MyApp''" "''/var/app''" example_controller]
    n f p
  show ?thesis by (simp add: snprintf_path_def)
qed

subsection \<open>C7: what the installation does for each signal\<close>

text \<open>
  C7, as the code has it. In an installation that succeeds, the current disposition
  of a signal is read only when a handler is already saved for it in the table; when
  that read succeeds and shows the detector's own handler, the signal is skipped, its
  table entry and disposition unchanged. In every other case, also when nothing is
  saved and the detector's handler is already the current one, the current disposition
  is saved in the table and the detector's action is installed, with
  \<^verbatim>\<open>SA_SIGINFO\<close> and \<^verbatim>\<open>SA_ONSTACK\<close>.
\<close>

theorem install_reads_only_saved_signals:
  assumes "distinct (fatalSignals cfg)"
    and "g_previousSignalHandlers w = None \<or> length (previous_table w) = length (fatalSignals cfg)"
    and "installSignalHandler cfg w = (True, w')"
    and "j < length (fatalSignals cfg)"
  shows "if g_previousSignalHandlers w \<noteq> None \<and>
            sa_sigaction (previous_table w ! j) \<noteq> NullHandler \<and>
            \<not> query_refused (os w) (fatalSignals cfg ! j) \<and>
            sa_sigaction (dispositions (os w) (fatalSignals cfg ! j)) = HandleSignal
         then previous_table w' ! j = previous_table w ! j \<and>
              dispositions (os w') (fatalSignals cfg ! j) = dispositions (os w) (fatalSignals cfg ! j)
         else previous_table w' ! j = dispositions (os w) (fatalSignals cfg ! j) \<and>
              dispositions (os w') (fatalSignals cfg ! j) = handler_action cfg \<and>
              sa_sigaction (handler_action cfg) = HandleSignal \<and>
              {SA_ONSTACK, SA_SIGINFO} \<subseteq> sa_flags (handler_action cfg)"
proof -
  have al: "already_set cfg j (allocatePrevious cfg w) =
      (g_previousSignalHandlers w \<noteq> None \<and>
       sa_sigaction (previous_table w ! j) \<noteq> NullHandler \<and>
       \<not> query_refused (os w) (fatalSignals cfg ! j) \<and>
       sa_sigaction (dispositions (os w) (fatalSignals cfg ! j)) = HandleSignal)"
    using assms(4)
    by (auto simp: already_set_unfold allocatePrevious_def previous_table_def zero_sigaction_def
        split: option.splits)
  have h: "sa_sigaction (handler_action cfg) = HandleSignal \<and>
           {SA_ONSTACK, SA_SIGINFO} \<subseteq> sa_flags (handler_action cfg)"
    by (simp add: handler_action_def)
  from installSignalHandler_success [OF assms] h show ?thesis
    unfolding al by (simp split: if_splits)
qed

text \<open>
  C7 at a concrete input: the handler another party had installed for signal 11 is
  saved at index 5 and replaced by the detector's.
\<close>

theorem install_reads_only_saved_signals_witness:
  "distinct (fatalSignals example_config) \<and>
   g_previousSignalHandlers (initial_monitor os_with_prior_handler) = None \<and>
   fst (installSignalHandler example_config (initial_monitor os_with_prior_handler)) \<and>
   (5::nat) < length (fatalSignals example_config) \<and>
   sa_sigaction (previous_table (snd (installSignalHandler example_config
       (initial_monitor os_with_prior_handler))) ! 5) = ExternalHandler 42 \<and>
   sa_sigaction (dispositions (os (snd (installSignalHandler example_config
       (initial_monitor os_with_prior_handler)))) 11) = HandleSignal"
proof -
  let ?w = "initial_monitor os_with_prior_handler"
  let ?w' = "snd (installSignalHandler example_config ?w)"
  have d: "distinct (fatalSignals example_config)" by (simp add: example_config_def)
  have t: "g_previousSignalHandlers ?w = None" by (simp add: initial_monitor_def)
  have f: "fst (installSignalHandler example_config ?w)" by (simp add: sig_defs)
  then have r: "installSignalHandler example_config ?w = (True, ?w')"
    by (metis prod.collapse)
  have j: "(5::nat) < length (fatalSignals example_config)" by (simp add: example_config_def)
  have p: "sa_sigaction (dispositions (os ?w) 11) = ExternalHandler 42" by (simp add: sig_defs)
  have s: "fatalSignals example_config ! 5 = 11" by (simp add: example_config_def)
  from install_reads_only_saved_signals [OF d disjI1 [OF t] r j] t p d f j
  show ?thesis by (simp add: s handler_action_def)
qed

text \<open>
  C7 as stated fails: on the quiet system the first installation saves null handlers,
  so the second one reads nothing, installs again over the detector's own handler and
  saves that handler as the previous one.
\<close>

theorem reinstall_saves_own_handler:
  "fst (installSignalHandler example_config (initial_monitor quiet_os)) \<and>
   sa_sigaction (dispositions (os (snd (installSignalHandler example_config (initial_monitor quiet_os)))) 6) = HandleSignal \<and>
   sa_sigaction (previous_table (snd (emb_reInstallSignalHandlers example_config
       (snd (installSignalHandler example_config (initial_monitor quiet_os))))) ! 0) = HandleSignal"
  by (simp add: sig_defs)

subsection \<open>C8: replay of the last lifecycle notification\<close>

text \<open>
  C8. A first install ends with the replay of the recorded lifecycle state: after the
  calls of the set-up comes exactly one call of the application-state detector for a
  recorded state, and none for the state None; the replay happens with the configured
  monitors activated and leaves the recorded state as it was. Each notification
  overwrites the recorded state.
\<close>

theorem install_replays_last_lifecycle_state:
  "(\<not> g_installed s \<longrightarrow>
      calls (snd (kscrash_install pathMax appName installPath s)) =
        calls s @
        [Call_ksfu_makePath (snprintf_path pathMax (installPath @ ''/Reports'')),
         Call_kscrs_initialize appName (snprintf_path pathMax (installPath @ ''/Reports'')),
         Call_ksfu_makePath (snprintf_path pathMax (installPath @ ''/Data'')),
         Call_kscrashstate_initialize
           (snprintf_path pathMax (installPath @ ''/Data/CrashState.json''))] @
        (if g_shouldPrintPreviousLog s
         then [Call_printPreviousLog (snprintf_path pathMax (installPath @ ''/Data/ConsoleLog.txt''))]
         else []) @
        [Call_kslog_setLogFilename (snprintf_path pathMax (installPath @ ''/Data/ConsoleLog.txt'')) True,
         Call_ksccd_init 60,
         Call_kscm_setEventCallback] @
          (case g_lastApplicationState s of
             KSApplicationStateNone \<Rightarrow> []
           | KSApplicationStateDidBecomeActive \<Rightarrow> [Call_kscrashstate_notifyAppActive True]
           | KSApplicationStateWillResignActiveActive \<Rightarrow> [Call_kscrashstate_notifyAppActive False]
           | KSApplicationStateDidEnterBackground \<Rightarrow> [Call_kscrashstate_notifyAppInForeground False]
           | KSApplicationStateWillEnterForeground \<Rightarrow> [Call_kscrashstate_notifyAppInForeground True]
           | KSApplicationStateWillTerminate \<Rightarrow> [Call_kscrashstate_notifyAppTerminate]) \<and>
      monitor_registry (snd (kscrash_install pathMax appName installPath s)) =
        kscm_setActiveMonitors (g_monitoring s) (monitor_registry s) \<and>
      g_lastApplicationState (snd (kscrash_install pathMax appName installPath s)) =
        g_lastApplicationState s) \<and>
   g_lastApplicationState (kscrash_notifyAppActive isActive s) =
     (if isActive then KSApplicationStateDidBecomeActive
      else KSApplicationStateWillResignActiveActive) \<and>
   g_lastApplicationState (kscrash_notifyAppInForeground isInForeground s) =
     (if isInForeground then KSApplicationStateWillEnterForeground
      else KSApplicationStateDidEnterBackground) \<and>
   g_lastApplicationState (kscrash_notifyAppTerminate s) = KSApplicationStateWillTerminate"
  by (simp add: install_first_calls install_setup_calls install_first notifyOfBeforeInstallationState_frame
      notifyOfBeforeInstallationState_calls install_setup_frame
      kscrash_notifyAppActive_def kscrash_notifyAppInForeground_def kscrash_notifyAppTerminate_def
      Let_def)

text \<open>
  C8 at a concrete input: the application became active before the install.
\<close>

theorem install_replays_last_lifecycle_state_witness:
  "\<not> g_installed (kscrash_notifyAppActive True example_controller) \<and>
   calls (snd (kscrash_install 500 ''MyApp'' ''/var/app''
       (kscrash_notifyAppActive True example_controller))) =
     [Call_ksfu_makePath ''/var/app/Reports'',
      Call_kscrs_initialize ''MyApp'' ''/var/app/Reports'',
      Call_ksfu_makePath ''/var/app/Data'',
      Call_kscrashstate_initialize ''/var/app/Data/CrashState.json'',
      Call_kslog_setLogFilename ''/var/app/Data/ConsoleLog.txt'' True,
      Call_ksccd_init 60,
      Call_kscm_setEventCallback,
      Call_kscrashstate_notifyAppActive True]"
proof -
  let ?s = "kscrash_notifyAppActive True example_controller"
  have n: "\<not> g_installed ?s" by (simp add: ctl_defs)
  have l: "g_lastApplicationState ?s = KSApplicationStateDidBecomeActive" by (simp add: ctl_defs)
  have p: "\<not> g_shouldPrintPreviousLog ?s" "calls ?s = []"
    by (simp_all add: ctl_defs)
  from install_replays_last_lifecycle_state [of ?s 500 "''MyApp''" "''/var/app''"] n l p
  show ?thesis by (simp add: snprintf_path_def)
qed

subsection \<open>C9: the default signal of other detectors' events\<close>

text \<open>
  C9. For an event whose kind has neither the Signal nor the Mach-exception bit the hook sets
  the signal number to \<^verbatim>\<open>SIGABRT\<close> and nothing else; for an event with one of
  the two bits it changes nothing.
\<close>

theorem addContextualInfoToEvent_default_signal:
  "(KSCrashMonitorTypeSignal \<notin> crashType eventContext \<and>
    KSCrashMonitorTypeMachException \<notin> crashType eventContext \<longrightarrow>
      addContextualInfoToEvent eventContext = eventContext\<lparr>signal_signum := SIGABRT\<rparr>) \<and>
   (KSCrashMonitorTypeSignal \<in> crashType eventContext \<or>
    KSCrashMonitorTypeMachException \<in> crashType eventContext \<longrightarrow>
      addContextualInfoToEvent eventContext = eventContext)"
  by (auto simp: addContextualInfoToEvent_def)

text \<open>
  C9 at two concrete inputs: an NSException event and a Mach-exception event.
\<close>

theorem addContextualInfoToEvent_default_signal_witness:
  "KSCrashMonitorTypeSignal \<notin> crashType (zero_context\<lparr>crashType := {KSCrashMonitorTypeNSException}\<rparr>) \<and>
   KSCrashMonitorTypeMachException \<notin> crashType (zero_context\<lparr>crashType := {KSCrashMonitorTypeNSException}\<rparr>) \<and>
   signal_signum (addContextualInfoToEvent (zero_context\<lparr>crashType := {KSCrashMonitorTypeNSException}\<rparr>)) = 6 \<and>
   KSCrashMonitorTypeMachException \<in> crashType (zero_context\<lparr>crashType := {KSCrashMonitorTypeMachException}\<rparr>) \<and>
   signal_signum (addContextualInfoToEvent (zero_context\<lparr>crashType := {KSCrashMonitorTypeMachException}\<rparr>)) = 0"
  using addContextualInfoToEvent_default_signal [of "zero_context\<lparr>crashType := {KSCrashMonitorTypeNSException}\<rparr>"]
    addContextualInfoToEvent_default_signal [of "zero_context\<lparr>crashType := {KSCrashMonitorTypeMachException}\<rparr>"]
  by (simp add: zero_context_def SIGABRT_def)

subsection \<open>C10: setMonitoring before install\<close>

text \<open>
  C10. Before the install \<^verbatim>\<open>kscrash_setMonitoring\<close> returns the empty mask and
  changes nothing, the requested mask included: the install that follows behaves as
  without the call and activates \<^verbatim>\<open>g_monitoring\<close>.
\<close>

theorem setMonitoring_before_install_is_dropped:
  assumes "\<not> g_installed s"
  shows "kscrash_setMonitoring monitors s = ({}, s) \<and>
         kscrash_install pathMax appName installPath (snd (kscrash_setMonitoring monitors s)) =
           kscrash_install pathMax appName installPath s \<and>
         fst (kscrash_install pathMax appName installPath (snd (kscrash_setMonitoring monitors s))) =
           kscm_getActiveMonitors (kscm_setActiveMonitors (g_monitoring s) (monitor_registry s)) \<and>
         monitor_registry
           (snd (kscrash_install pathMax appName installPath (snd (kscrash_setMonitoring monitors s)))) =
           kscm_setActiveMonitors (g_monitoring s) (monitor_registry s)"
  using assms
  by (simp add: kscrash_setMonitoring_def install_first notifyOfBeforeInstallationState_frame)

text \<open>
  C10 at a concrete input: the zombie detector is requested before the install, and
  the install activates the configured Mach-exception and signal detectors.
\<close>

theorem setMonitoring_before_install_is_dropped_witness:
  "\<not> g_installed example_controller \<and>
   fst (kscrash_setMonitoring {KSCrashMonitorTypeZombie} example_controller) = {} \<and>
   fst (kscrash_install 500 ''MyApp'' ''/var/app''
          (snd (kscrash_setMonitoring {KSCrashMonitorTypeZombie} example_controller))) =
     {KSCrashMonitorTypeMachException, KSCrashMonitorTypeSignal}"
proof -
  have n: "\<not> g_installed example_controller" by (simp add: ctl_defs)
  have m: "kscm_getActiveMonitors (kscm_setActiveMonitors (g_monitoring example_controller)
             (monitor_registry example_controller)) =
           {KSCrashMonitorTypeMachException, KSCrashMonitorTypeSignal}"
    by (auto simp: ctl_defs)
  note th = setMonitoring_before_install_is_dropped [OF n, of "{KSCrashMonitorTypeZombie}" 500 "''MyApp''" "''/var/app''"]
  from th have a: "fst (kscrash_setMonitoring {KSCrashMonitorTypeZombie} example_controller) = {}"
    by simp
  from th have "fst (kscrash_install 500 ''MyApp'' ''/var/app''
          (snd (kscrash_setMonitoring {KSCrashMonitorTypeZombie} example_controller))) =
     kscm_getActiveMonitors (kscm_setActiveMonitors (g_monitoring example_controller)
             (monitor_registry example_controller))"
    by blast
  with n a m show ?thesis by simp
qed

end
